theory Spec2Isabelle
  imports Complex_Main "HOL-Library.Word" "HOL-Library.AList"
begin

section \<open>Data model of the Wialon client (wialon.go)\<close>

text \<open>
  Go strings are byte sequences, so a \<open>string\<close> (a list of 8-bit characters) models them
  directly: \<open>length\<close> is Go's \<open>len\<close>, and slicing works on bytes.

  A \<open>float64\<close> or \<open>float32\<close> value is modelled by the real number it denotes, or one of the
  three special values. The model does not tell the two zeros apart. Go's \<open>int\<close> is taken to
  be 64 bits wide; \<open>WialonError\<close> is \<open>int16\<close>.
\<close>

datatype gofloat = Finite real | PosInf | NegInf | NaN

text \<open>
  The dynamic values an \<open>interface{}\<close> can hold, as far as the program tells them apart: the
  type switch of \<open>WialonAPICall\<close> distinguishes \<open>string\<close>, \<open>int\<close>, \<open>float32\<close>/\<open>float64\<close> and
  everything else; \<open>Login\<close>, \<open>Logout\<close> and \<open>ErrorHandler\<close> assert \<open>string\<close> and \<open>float64\<close>.
  \<open>VOther\<close> stands for a value of any further Go type. A map is \<open>None\<close> when it is the nil
  map, and otherwise an association list of its entries.
\<close>

datatype gval =
    VNil
  | VBool bool
  | VString string
  | VInt "64 word"
  | VFloat32 gofloat
  | VFloat64 gofloat
  | VSlice "gval list"
  | VMap "(string \<times> gval) list option"
  | VOther nat

type_synonym WialonError = "16 word"
type_synonym WialonResult = string
type_synonym WialonAPISvc = string
type_synonym WialonToken = string
type_synonym WialonAPIParams = "(string \<times> gval) list option"

record Wialon =
  Sid :: string
  BaseAPIUrl :: string
  DefaultParams :: WialonAPIParams

text \<open>A run-time panic of the Go program: the two the language raises, and \<open>panic(msg)\<close>.\<close>

datatype panic = SliceBoundsOutOfRange | AssignmentToNilMap | Panic string

subsection \<open>The error codes and their descriptions\<close>

definition InvalidSession :: WialonError where "InvalidSession = 1"
definition InvalidService :: WialonError where "InvalidService = 2"
definition InvalidResult :: WialonError where "InvalidResult = 3"
definition InvalidInput :: WialonError where "InvalidInput = 4"
definition ErrPerformReq :: WialonError where "ErrPerformReq = 5"
definition UnknownError :: WialonError where "UnknownError = 6"
definition AccessDenied :: WialonError where "AccessDenied = 7"
definition InvalidUserNameOrPassword :: WialonError where "InvalidUserNameOrPassword = 8"
definition AuthServerUnavailable :: WialonError where "AuthServerUnavailable = 9"
definition NoMsgForSelectedInterval :: WialonError where "NoMsgForSelectedInterval = 1001"
definition ItemAlreadyExists :: WialonError where "ItemAlreadyExists = 1002"
definition OneReqAllowed :: WialonError where "OneReqAllowed = 1003"
definition MsgLimitExceeded :: WialonError where "MsgLimitExceeded = 1004"
definition ExecutionTimeExceeded :: WialonError where "ExecutionTimeExceeded = 1005"
definition LimitAttemptsTwoFactAuth :: WialonError where "LimitAttemptsTwoFactAuth = 1006"
definition IPChangedOrSessExpired :: WialonError where "IPChangedOrSessExpired = 1011"
definition UserCannotBeBoundToAcc :: WialonError where "UserCannotBeBoundToAcc = 2014"
definition SensDeletingForbidden :: WialonError where "SensDeletingForbidden = 2015"

definition WialonErrors :: "(WialonError \<times> string) list" where
  "WialonErrors =
    [(InvalidSession, ''Invalid session''),
     (InvalidService, ''Invalid service''),
     (InvalidResult, ''Invalid result''),
     (InvalidInput, ''Invalid input''),
     (ErrPerformReq, ''Error performing request''),
     (UnknownError, ''Unknown error''),
     (AccessDenied, ''Access denied''),
     (InvalidUserNameOrPassword, ''Invalid user name or password''),
     (AuthServerUnavailable, ''Authorization server is unavailable, please try again later''),
     (NoMsgForSelectedInterval, ''No message for selected interval''),
     (ItemAlreadyExists, ''Item with such inique property already exists''),
     (OneReqAllowed, ''Only one request of given time is allowed at the moment''),
     (MsgLimitExceeded, ''Limit of messages has been exceeded''),
     (ExecutionTimeExceeded, ''Execution time has exceeded the limit''),
     (LimitAttemptsTwoFactAuth,
        ''Exceeding the limit of attempts to enter a two-factor authorization code''),
     (IPChangedOrSessExpired, ''Your IP has changed or session has expired''),
     (UserCannotBeBoundToAcc,
        ''Selected user is a creator for some system objects, thus this user cannot be bound to a new account''),
     (SensDeletingForbidden,
        ''Sensor deleting is forbidden because of using in another sensor or advanced properties of the unit'')]"

text \<open>Indexing the table, \<open>WialonErrors[we]\<close>: the empty string when the key is absent.\<close>

definition WialonErrors_index :: "WialonError \<Rightarrow> string" where
  "WialonErrors_index we = (case map_of WialonErrors we of Some s \<Rightarrow> s | None \<Rightarrow> '''')"

subsection \<open>The Go library and the network, as parameters\<close>

text \<open>
  The functions of Go's standard library that the client calls, and the server it talks to,
  are parameters of the model; every theorem holds for every choice of them.
  \<^item> \<open>url_Parse\<close>: \<open>url.Parse\<close>, \<open>None\<close> when it returns an error;
  \<^item> \<open>json_Marshal\<close>: \<open>json.Marshal\<close>, \<open>None\<close> when it returns an error;
  \<^item> \<open>json_Unmarshal body m\<close>: the map that the variable holds after
    \<open>json.Unmarshal([]byte(body), &m)\<close>; every caller discards the error result;
  \<^item> \<open>Sprintf_g\<close>: \<open>fmt.Sprintf("%g", v)\<close>;
  \<^item> \<open>Values_Encode\<close>: \<open>url.Values.Encode\<close> on the fields set so far;
  \<^item> \<open>http_Post url contentType body\<close>: \<open>http.Post\<close>, \<open>None\<close> when it returns an error;
  \<^item> \<open>ReadAll\<close>: \<open>ioutil.ReadAll\<close> on the response body, \<open>None\<close> when it returns an error;
  \<^item> \<open>float_oor\<close>: the result of converting to \<open>int\<close> a float that no \<open>int\<close> represents,
    which the language leaves to the implementation.
  The diagnostic \<open>fmt.Println\<close> of \<open>WialonAPICall\<close> only writes to standard output and is
  left out.
\<close>

record ('u, 'r) env =
  url_Parse :: "string \<Rightarrow> 'u option"
  json_Marshal :: "gval \<Rightarrow> string option"
  json_Unmarshal :: "string \<Rightarrow> WialonAPIParams \<Rightarrow> WialonAPIParams"
  Sprintf_g :: "gval \<Rightarrow> string"
  Values_Encode :: "(string \<times> string list) list \<Rightarrow> string"
  http_Post :: "string \<Rightarrow> string \<Rightarrow> string \<Rightarrow> 'r option"
  ReadAll :: "'r \<Rightarrow> string option"
  float_oor :: "gofloat \<Rightarrow> 64 word"

subsection \<open>Language-level operations\<close>

text \<open>\<open>m[k]\<close> on a map: \<open>None\<close> when the key is absent (also on the nil map).\<close>

definition map_index :: "WialonAPIParams \<Rightarrow> string \<Rightarrow> gval option" where
  "map_index m k = (case m of None \<Rightarrow> None | Some al \<Rightarrow> map_of al k)"

text \<open>
  The entries a \<open>range\<close> over a map visits: none on the nil map. Go visits them in an
  unspecified order and the model in the order of the list; what the theorems say about the
  resulting maps is said through lookups, which do not depend on the order.
\<close>

definition range_entries :: "WialonAPIParams \<Rightarrow> (string \<times> gval) list" where
  "range_entries m = (case m of None \<Rightarrow> [] | Some al \<Rightarrow> al)"

text \<open>\<open>s[lo:]\<close> on a string panics when \<open>lo > len(s)\<close>; \<open>s[0:hi]\<close> when \<open>hi > len(s)\<close>.\<close>

definition slice_from :: "string \<Rightarrow> nat \<Rightarrow> panic + string" where
  "slice_from s lo = (if lo \<le> length s then Inr (drop lo s) else Inl SliceBoundsOutOfRange)"

definition slice_to :: "string \<Rightarrow> nat \<Rightarrow> panic + string" where
  "slice_to s hi = (if hi \<le> length s then Inr (take hi s) else Inl SliceBoundsOutOfRange)"

definition strings_HasPrefix :: "string \<Rightarrow> string \<Rightarrow> bool" where
  "strings_HasPrefix s pre = (length pre \<le> length s \<and> take (length pre) s = pre)"

text \<open>
  \<open>strings.Replace(s, old, new, n)\<close> for a one-byte \<open>old\<close> and \<open>n \<ge> 0\<close>: the first \<open>n\<close>
  occurrences of the byte are replaced.
\<close>

fun strings_Replace :: "string \<Rightarrow> char \<Rightarrow> string \<Rightarrow> nat \<Rightarrow> string" where
  "strings_Replace [] old new n = []"
| "strings_Replace (c # cs) old new n =
     (if n = 0 then c # cs
      else if c = old then new @ strings_Replace cs old new (n - 1)
      else c # strings_Replace cs old new n)"

text \<open>\<open>strconv.Itoa\<close>: the decimal digits, with a minus sign for a negative number.\<close>

function dec_digits :: "nat \<Rightarrow> string" where
  "dec_digits n =
     (if n < 10 then [''0123456789'' ! n]
      else dec_digits (n div 10) @ [''0123456789'' ! (n mod 10)])"
  by pat_completeness auto
termination
  by (relation "measure id") auto

definition strconv_Itoa :: "64 word \<Rightarrow> string" where
  "strconv_Itoa i =
     (if sint i < 0 then ''-'' @ dec_digits (nat (- sint i)) else dec_digits (nat (sint i)))"

text \<open>
  The conversion \<open>int(f)\<close> of a float: the fraction is discarded (truncation towards zero);
  when the truncated value is no \<open>int\<close>, the result is the implementation's.
\<close>

definition float_truncate :: "real \<Rightarrow> int" where
  "float_truncate r = (if 0 \<le> r then \<lfloor>r\<rfloor> else - \<lfloor>- r\<rfloor>)"

definition int_of_float :: "(gofloat \<Rightarrow> 64 word) \<Rightarrow> gofloat \<Rightarrow> 64 word" where
  "int_of_float oor f =
     (case f of
        Finite r \<Rightarrow>
          if - (2 ^ 63) \<le> float_truncate r \<and> float_truncate r < 2 ^ 63
          then word_of_int (float_truncate r)
          else oor f
      | _ \<Rightarrow> oor f)"

text \<open>The conversion \<open>WialonError(i)\<close> of an \<open>int\<close>: the low 16 bits, read as signed.\<close>

definition WialonError_of_int :: "64 word \<Rightarrow> WialonError" where
  "WialonError_of_int i = scast i"

section \<open>The client\<close>

definition NewWialon ::
  "string \<Rightarrow> string \<Rightarrow> string \<Rightarrow> string \<Rightarrow> WialonAPIParams \<Rightarrow> Wialon" where
  "NewWialon scheme host port sid extraParams =
     (let port' = (if port \<noteq> '''' then '':'' @ port else port)
      in \<lparr>Sid = sid,
          BaseAPIUrl = scheme @ ''://'' @ host @ port' @ ''/wialon/ajax.html?'',
          DefaultParams = extraParams\<rparr>)"

definition NewDefaultWialon :: Wialon where
  "NewDefaultWialon = NewWialon ''https'' ''hst-api.wialon.com'' '''' '''' (Some [])"

text \<open>
  \<open>UpdateExtraParams\<close>: the loop assigns every entry of \<open>params\<close> to \<open>w.DefaultParams\<close>.
  An assignment to an entry of the nil map panics; nothing has been changed by then.
\<close>

fun assign_entries :: "(string \<times> gval) list \<Rightarrow> WialonAPIParams \<Rightarrow> panic + WialonAPIParams" where
  "assign_entries [] m = Inr m"
| "assign_entries ((k, v) # kvs) m =
     (case m of
        None \<Rightarrow> Inl AssignmentToNilMap
      | Some al \<Rightarrow> assign_entries kvs (Some (AList.update k v al)))"

definition UpdateExtraParams :: "Wialon \<Rightarrow> WialonAPIParams \<Rightarrow> panic + Wialon" where
  "UpdateExtraParams w params =
     (case assign_entries (range_entries params) (DefaultParams w) of
        Inl p \<Rightarrow> Inl p
      | Inr m \<Rightarrow> Inr (w\<lparr>DefaultParams := m\<rparr>))"

text \<open>The service name of \<open>WialonAPICall\<close> (the first statements of its body).\<close>

definition normalize_svc :: "WialonAPISvc \<Rightarrow> panic + string" where
  "normalize_svc action =
     (if strings_HasPrefix action ''unit_group'' then
        (case slice_to action (length ''unit_group'') of
           Inl p \<Rightarrow> Inl p
         | Inr pre \<Rightarrow>
            (case slice_from action (length ''unit_group'' + 1) of
               Inl p \<Rightarrow> Inl p
             | Inr rest \<Rightarrow> Inr (pre @ ''/'' @ rest)))
      else Inr (strings_Replace action (CHR ''_'') ''/'' 1))"

text \<open>The type switch of \<open>WialonAPICall\<close>: the text of one field.\<close>

definition encode_value :: "('u, 'r) env \<Rightarrow> gval \<Rightarrow> panic + string" where
  "encode_value e v =
     (case v of
        VString val \<Rightarrow> Inr val
      | VInt val \<Rightarrow> Inr (strconv_Itoa val)
      | VFloat32 val \<Rightarrow> Inr (Sprintf_g e v)
      | VFloat64 val \<Rightarrow> Inr (Sprintf_g e v)
      | _ \<Rightarrow>
         (case json_Marshal e v of
            None \<Rightarrow> Inl (Panic ''Cannot Marshal params'')
          | Some jsonified \<Rightarrow> Inr jsonified))"

text \<open>
  The loop over \<open>w.DefaultParams\<close> that fills \<open>urlValues\<close>; \<open>urlValues.Set(k, s)\<close> makes
  \<open>[s]\<close> the values of the key.
\<close>

fun encode_params ::
  "('u, 'r) env \<Rightarrow> (string \<times> gval) list \<Rightarrow> (string \<times> string list) list \<Rightarrow>
   panic + (string \<times> string list) list" where
  "encode_params e [] urlValues = Inr urlValues"
| "encode_params e ((k, v) # kvs) urlValues =
     (case encode_value e v of
        Inl p \<Rightarrow> Inl p
      | Inr s \<Rightarrow> encode_params e kvs (AList.update k [s] urlValues))"

text \<open>The request itself: the POST and the reading of the response body.\<close>

definition post_query :: "('u, 'r) env \<Rightarrow> string \<Rightarrow> string \<Rightarrow> string \<Rightarrow> panic + WialonResult" where
  "post_query e url contentType query =
     (case http_Post e url contentType query of
        None \<Rightarrow> Inl (Panic ''Cannot do Post Query'')
      | Some response \<Rightarrow>
         (case ReadAll e response of
            None \<Rightarrow> Inl (Panic ''Cannot read response body'')
          | Some responseBody \<Rightarrow> Inr responseBody))"

text \<open>The map literal \<open>reqParams\<close> of \<open>WialonAPICall\<close>.\<close>

definition reqParams :: "Wialon \<Rightarrow> string \<Rightarrow> WialonAPIParams \<Rightarrow> WialonAPIParams" where
  "reqParams w svc params =
     Some [(''sid'', VString (Sid w)), (''svc'', VString svc), (''params'', VMap params)]"

text \<open>
  \<open>WialonAPICall\<close> returns the result or panics, and in both cases leaves the client in the
  state returned as second component.
\<close>

definition WialonAPICall ::
  "('u, 'r) env \<Rightarrow> Wialon \<Rightarrow> WialonAPISvc \<Rightarrow> WialonAPIParams \<Rightarrow> (panic + WialonResult) \<times> Wialon" where
  "WialonAPICall e w action params =
     (case normalize_svc action of
        Inl p \<Rightarrow> (Inl p, w)
      | Inr svc \<Rightarrow>
         (case UpdateExtraParams w (reqParams w svc params) of
            Inl p \<Rightarrow> (Inl p, w)
          | Inr w1 \<Rightarrow>
             (case url_Parse e (BaseAPIUrl w1) of
                None \<Rightarrow> (Inl (Panic ''Cannot parse Wialon baseAPIUrl''), w1)
              | Some u \<Rightarrow>
                 (case encode_params e (range_entries (DefaultParams w1)) [] of
                    Inl p \<Rightarrow> (Inl p, w1)
                  | Inr urlValues \<Rightarrow>
                     (post_query e (BaseAPIUrl w1) ''application/x-www-form-urlencoded''
                        (Values_Encode e urlValues), w1)))))"

definition Login ::
  "('u, 'r) env \<Rightarrow> Wialon \<Rightarrow> WialonToken \<Rightarrow> (panic + WialonResult \<times> bool) \<times> Wialon" where
  "Login e w token =
     (case WialonAPICall e w ''token_login'' (Some [(''token'', VString token)]) of
        (Inl p, w1) \<Rightarrow> (Inl p, w1)
      | (Inr result, w1) \<Rightarrow>
         (case map_index (json_Unmarshal e result (Some [])) ''eid'' of
            Some (VString eid) \<Rightarrow> (Inr (result, True), w1\<lparr>Sid := eid\<rparr>)
          | _ \<Rightarrow> (Inr (result, False), w1)))"

definition Logout :: "('u, 'r) env \<Rightarrow> Wialon \<Rightarrow> (panic + WialonResult \<times> bool) \<times> Wialon" where
  "Logout e w =
     (case WialonAPICall e w ''core_logout'' (Some []) of
        (Inl p, w1) \<Rightarrow> (Inl p, w1)
      | (Inr result, w1) \<Rightarrow>
         (case map_index (json_Unmarshal e result (Some [])) ''error'' of
            Some (VFloat64 err) \<Rightarrow>
              if int_of_float (float_oor e) err = 0
              then (Inr (result, True), w1\<lparr>Sid := ''''\<rparr>)
              else (Inr (result, False), w1)
          | _ \<Rightarrow> (Inr (result, False), w1)))"

definition ErrorHandler :: "('u, 'r) env \<Rightarrow> WialonResult \<Rightarrow> WialonError \<times> string" where
  "ErrorHandler e res =
     (let loginError =
            (case map_index (json_Unmarshal e res (Some [])) ''error'' of
               Some (VFloat64 f) \<Rightarrow> f
             | _ \<Rightarrow> Finite 0);
          we = WialonError_of_int (int_of_float (float_oor e) loginError)
      in (we, WialonErrors_index we))"

section \<open>A sample environment\<close>

text \<open>
  For concrete runs of the client: a server that answers every request with one fixed body,
  and the library functions on the handful of arguments these runs reach, with the values
  Go's library gives there (elsewhere the sample functions are arbitrary). The sample server
  does not look at the request, and \<open>sample_Encode\<close> joins the fields without the sorting
  and escaping of \<open>url.Values.Encode\<close>. Converting an out-of-range float yields the least
  \<open>int\<close>, as on amd64.
\<close>

definition sample_decode :: "string \<Rightarrow> (string \<times> gval) list option" where
  \<open>sample_decode body =
     (if body = ''{"eid":"abc123"}'' then Some [(''eid'', VString ''abc123'')]
      else if body = ''{"eid":5}'' then Some [(''eid'', VFloat64 (Finite 5))]
      else if body = ''{"error":0}'' then Some [(''error'', VFloat64 (Finite 0))]
      else if body = ''{"error":1}'' then Some [(''error'', VFloat64 (Finite 1))]
      else if body = ''{"error":4}'' then Some [(''error'', VFloat64 (Finite 4))]
      else if body = ''{"error":7}'' then Some [(''error'', VFloat64 (Finite 7))]
      else if body = ''{"error":65543}'' then Some [(''error'', VFloat64 (Finite 65543))]
      else if body = ''{"error":2048}'' then Some [(''error'', VFloat64 (Finite 2048))]
      else if body = ''{"error":9007199254740993}''
        then Some [(''error'', VFloat64 (Finite 9007199254740992))]
      else if body = ''{"error":9223372036854777856}''
        then Some [(''error'', VFloat64 (Finite 9223372036854777856))]
      else if body = ''{"error":0.5}'' then Some [(''error'', VFloat64 (Finite (1 / 2)))]
      else if body = ''{"error":"7"}'' then Some [(''error'', VString ''7'')]
      else if body = ''{}'' then Some []
      else None)\<close>

definition sample_Unmarshal :: "string \<Rightarrow> WialonAPIParams \<Rightarrow> WialonAPIParams" where
  "sample_Unmarshal body m =
     (case sample_decode body of
        None \<Rightarrow> m
      | Some kvs \<Rightarrow> Some (fold (\<lambda>(k, v). AList.update k v) kvs (range_entries m)))"

definition sample_Marshal :: "gval \<Rightarrow> string option" where
  \<open>sample_Marshal v =
     (if v = VMap (Some []) then Some ''{}''
      else if v = VMap (Some [(''token'', VString ''secret'')]) then Some ''{"token":"secret"}''
      else if v = VMap (Some [(''id'', VInt 5)]) then Some ''{"id":5}''
      else if v = VBool True then Some ''true''
      else if v = VBool False then Some ''false''
      else None)\<close>

definition sample_Sprintf_g :: "gval \<Rightarrow> string" where
  "sample_Sprintf_g v = (if v = VFloat64 (Finite (3 / 2)) then ''1.5'' else ''0'')"

definition sample_Encode :: "(string \<times> string list) list \<Rightarrow> string" where
  "sample_Encode urlValues = concat (map (\<lambda>(k, vs). k @ ''='' @ concat vs @ ''&'') urlValues)"

definition sample_env :: "string \<Rightarrow> (string, string) env" where
  "sample_env body =
     \<lparr>url_Parse = Some,
      json_Marshal = sample_Marshal,
      json_Unmarshal = sample_Unmarshal,
      Sprintf_g = sample_Sprintf_g,
      Values_Encode = sample_Encode,
      http_Post = (\<lambda>url contentType query. Some body),
      ReadAll = Some,
      float_oor = (\<lambda>f. - (2 ^ 63))\<rparr>"

text \<open>A client with a session, as \<open>NewWialon\<close> builds it.\<close>

definition sample_client :: Wialon where
  "sample_client = NewWialon ''https'' ''example.com'' '''' ''s1'' (Some [(''lang'', VString ''en'')])"

text \<open>The client that \<open>NewWialon\<close> builds when it is given the nil map.\<close>

definition nil_client :: Wialon where
  "nil_client = NewWialon ''https'' ''example.com'' '''' ''s1'' None"

text \<open>
  A client whose default parameters have a string, an \<open>int\<close>, a \<open>float64\<close> and a \<open>bool\<close>;
  its parameters merged with those of a \<open>core_search_items\<close> call; and the fields of that
  request.
\<close>

definition typed_client :: Wialon where
  "typed_client = NewWialon ''https'' ''example.com'' '''' ''s1''
     (Some [(''lang'', VString ''en''), (''limit'', VInt 5), (''ratio'', VFloat64 (Finite (3 / 2))),
            (''flag'', VBool True)])"

definition typed_client_merged :: "(string \<times> gval) list" where
  "typed_client_merged =
     [(''lang'', VString ''en''), (''limit'', VInt 5), (''ratio'', VFloat64 (Finite (3 / 2))),
      (''flag'', VBool True), (''sid'', VString ''s1''), (''svc'', VString ''core/search_items''),
      (''params'', VMap (Some [(''id'', VInt 5)]))]"

definition typed_client_urlValues :: "(string \<times> string list) list" where
  \<open>typed_client_urlValues =
     [(''lang'', [''en'']), (''limit'', [''5'']), (''ratio'', [''1.5'']), (''flag'', [''true'']),
      (''sid'', [''s1'']), (''svc'', [''core/search_items'']), (''params'', [''{"id":5}''])]\<close>

text \<open>The sample client after a \<open>core_logout\<close> call, and after a \<open>token_login\<close> call.\<close>

definition after_logout_call :: Wialon where
  "after_logout_call = sample_client\<lparr>DefaultParams :=
     Some [(''lang'', VString ''en''), (''sid'', VString ''s1''), (''svc'', VString ''core/logout''),
           (''params'', VMap (Some []))]\<rparr>"

definition after_login_call :: Wialon where
  "after_login_call = sample_client\<lparr>DefaultParams :=
     Some [(''lang'', VString ''en''), (''sid'', VString ''s1''), (''svc'', VString ''token/login''),
           (''params'', VMap (Some [(''token'', VString ''secret'')]))]\<rparr>"

section \<open>Service names\<close>

lemma strings_Replace_zero: "strings_Replace s old new 0 = s"
  by (cases s) simp_all

lemma strings_Replace_first:
  "old \<notin> set pre \<Longrightarrow>
   strings_Replace (pre @ old # post) old new (Suc n) = pre @ new @ strings_Replace post old new n"
  by (induction pre) auto

lemma count_list_one_split:
  assumes "count_list s c = 1"
  shows "\<exists>pre post. s = pre @ c # post \<and> c \<notin> set pre \<and> c \<notin> set post"
proof -
  from assms have "c \<in> set s"
    by (metis count_list_0_iff zero_neq_one)
  then obtain pre post where s: "s = pre @ c # post" and pre: "c \<notin> set pre"
    by (auto dest: split_list_first)
  from assms s pre have "count_list post c = 0"
    by (simp add: count_list_0_iff)
  then have "c \<notin> set post"
    by (simp add: count_list_0_iff)
  with s pre show ?thesis by blast
qed

lemma length_unit_group: "length ''unit_group'' = 10"
  by simp

lemma normalize_svc_prefixed:
  assumes "strings_HasPrefix action ''unit_group''"
  shows "normalize_svc action =
    (if 11 \<le> length action then Inr (''unit_group'' @ ''/'' @ drop 11 action)
     else Inl SliceBoundsOutOfRange)"
proof -
  from assms have len: "10 \<le> length action" and pre: "take 10 action = ''unit_group''"
    unfolding strings_HasPrefix_def length_unit_group by simp_all
  have "slice_to action 10 = Inr ''unit_group''"
    unfolding slice_to_def using len pre by simp
  moreover have "slice_from action (10 + 1) =
      (if 11 \<le> length action then Inr (drop 11 action) else Inl SliceBoundsOutOfRange)"
    unfolding slice_from_def by simp
  ultimately show ?thesis
    unfolding normalize_svc_def length_unit_group using assms by simp
qed

lemma normalize_svc_bare: "normalize_svc ''unit_group'' = Inl SliceBoundsOutOfRange"
proof -
  have "strings_HasPrefix ''unit_group'' ''unit_group''"
    by (simp add: strings_HasPrefix_def)
  then show ?thesis
    by (simp add: normalize_svc_prefixed)
qed

lemma normalize_svc_first_underscore:
  assumes a: "\<not> strings_HasPrefix action ''unit_group''" and pre: "CHR ''_'' \<notin> set pre"
    and s: "action = pre @ CHR ''_'' # post"
  shows "normalize_svc action = Inr (pre @ ''/'' @ post)"
proof -
  have "strings_Replace (pre @ CHR ''_'' # post) (CHR ''_'') ''/'' (Suc 0) =
      pre @ ''/'' @ strings_Replace post (CHR ''_'') ''/'' 0"
    using pre by (rule strings_Replace_first)
  then have "strings_Replace action (CHR ''_'') ''/'' 1 = pre @ ''/'' @ post"
    by (simp only: One_nat_def strings_Replace_zero s)
  then show ?thesis
    unfolding normalize_svc_def using a by (simp only: if_False)
qed

text \<open>
  Claim C1, as the code has it. A name that starts with \<open>unit_group\<close> and is longer than
  these ten bytes is normalized to the prefix, a slash, and the name from its twelfth byte on:
  the slash comes right after the prefix, in place of the byte that followed it, whatever
  underscores the rest contains. A name that does not start with \<open>unit_group\<close> and has
  exactly one underscore has that underscore replaced by a slash, and nothing else changes.
\<close>

theorem normalize_svc_slash:
  "(strings_HasPrefix action ''unit_group'' \<and> 10 < length action \<longrightarrow>
      normalize_svc action = Inr (''unit_group'' @ ''/'' @ drop 11 action)) \<and>
   (\<not> strings_HasPrefix action ''unit_group'' \<and> count_list action (CHR ''_'') = 1 \<longrightarrow>
      (\<exists>pre post. action = pre @ CHR ''_'' # post \<and> CHR ''_'' \<notin> set pre \<and> CHR ''_'' \<notin> set post \<and>
         normalize_svc action = Inr (pre @ ''/'' @ post)))"
proof (intro conjI impI)
  assume "strings_HasPrefix action ''unit_group'' \<and> 10 < length action"
  then show "normalize_svc action = Inr (''unit_group'' @ ''/'' @ drop 11 action)"
    by (simp add: normalize_svc_prefixed)
next
  assume a: "\<not> strings_HasPrefix action ''unit_group'' \<and> count_list action (CHR ''_'') = 1"
  then have "count_list action (CHR ''_'') = 1"
    by (rule conjunct2)
  from count_list_one_split [OF this]
  obtain pre post where s: "action = pre @ CHR ''_'' # post"
    and pre: "CHR ''_'' \<notin> set pre" and post: "CHR ''_'' \<notin> set post"
    by (elim exE conjE)
  from a pre s have "normalize_svc action = Inr (pre @ ''/'' @ post)"
    by (intro normalize_svc_first_underscore) (erule conjunct1, assumption+)
  with s pre post
  show "\<exists>pre post. action = pre @ CHR ''_'' # post \<and> CHR ''_'' \<notin> set pre \<and> CHR ''_'' \<notin> set post \<and>
         normalize_svc action = Inr (pre @ ''/'' @ post)"
    by (intro exI [of _ pre] exI [of _ post] conjI)
qed

theorem normalize_svc_slash_witness:
  "strings_HasPrefix ''unit_group_update_name'' ''unit_group'' \<and>
   10 < length ''unit_group_update_name'' \<and>
   normalize_svc ''unit_group_update_name'' = Inr ''unit_group/update_name'' \<and>
   \<not> strings_HasPrefix ''core_logout'' ''unit_group'' \<and>
   count_list ''core_logout'' (CHR ''_'') = 1 \<and>
   (\<exists>pre post. ''core_logout'' = pre @ CHR ''_'' # post \<and> CHR ''_'' \<notin> set pre \<and> CHR ''_'' \<notin> set post \<and>
      normalize_svc ''core_logout'' = Inr (pre @ ''/'' @ post))"
proof -
  have h1: "strings_HasPrefix ''unit_group_update_name'' ''unit_group'' \<and>
      10 < length ''unit_group_update_name''"
    by (simp add: strings_HasPrefix_def)
  have h2: "\<not> strings_HasPrefix ''core_logout'' ''unit_group'' \<and>
      count_list ''core_logout'' (CHR ''_'') = 1"
    by (simp add: strings_HasPrefix_def)
  have c1: "normalize_svc ''unit_group_update_name'' = Inr ''unit_group/update_name''"
    using normalize_svc_slash [of "''unit_group_update_name''", THEN conjunct1, rule_format, OF h1]
    by simp
  note c2 = normalize_svc_slash [of "''core_logout''", THEN conjunct2, rule_format, OF h2]
  show ?thesis
    using h1 h2 c1 c2 by (intro conjI) (erule conjunct1 conjunct2 | assumption)+
qed

lemma HasPrefix_bare: "strings_HasPrefix ''unit_group'' ''unit_group''"
  by (simp add: strings_HasPrefix_def)

lemma HasPrefix_groups_list: "strings_HasPrefix ''unit_groups_list'' ''unit_group''"
  by (simp add: strings_HasPrefix_def)

lemma normalize_groups_list: "normalize_svc ''unit_groups_list'' = Inr ''unit_group/_list''"
  by (simp add: normalize_svc_prefixed [OF HasPrefix_groups_list])

text \<open>
  The claim as stated covers every name that starts with \<open>unit_group\<close>, and has the slash
  inserted. The bare prefix, which has exactly one underscore, has no normalized name; and
  in \<open>unit_groups_list\<close> the byte after the prefix is lost, where inserting the slash would
  give \<open>unit_group/s_list\<close>.
\<close>

theorem normalize_svc_prefix_counterexample:
  "strings_HasPrefix ''unit_group'' ''unit_group'' \<and>
   count_list ''unit_group'' (CHR ''_'') = 1 \<and>
   normalize_svc ''unit_group'' = Inl SliceBoundsOutOfRange \<and>
   strings_HasPrefix ''unit_groups_list'' ''unit_group'' \<and>
   normalize_svc ''unit_groups_list'' = Inr ''unit_group/_list'' \<and>
   take 10 ''unit_groups_list'' @ ''/'' @ drop 10 ''unit_groups_list'' = ''unit_group/s_list'' \<and>
   normalize_svc ''unit_groups_list'' \<noteq>
     Inr (take 10 ''unit_groups_list'' @ ''/'' @ drop 10 ''unit_groups_list'')"
proof -
  have 1: "count_list ''unit_group'' (CHR ''_'') = 1"
    by simp
  have 2: "take 10 ''unit_groups_list'' @ ''/'' @ drop 10 ''unit_groups_list'' = ''unit_group/s_list''"
    by simp
  have 3: "normalize_svc ''unit_groups_list'' \<noteq>
     Inr (take 10 ''unit_groups_list'' @ ''/'' @ drop 10 ''unit_groups_list'')"
    unfolding 2 normalize_groups_list by simp
  from HasPrefix_bare 1 normalize_svc_bare HasPrefix_groups_list normalize_groups_list 2 3
  show ?thesis
    by (intro conjI)
qed

text \<open>
  Claim C8. \<open>WialonAPICall\<close> with the action \<open>unit_group\<close> panics with a slice out of
  range, in every environment and with the client unchanged, so before anything of the
  request is built. On the names that start with \<open>unit_group\<close>, normalization yields a
  name exactly when the name is longer than the prefix.
\<close>

theorem WialonAPICall_unit_group_panics:
  "WialonAPICall e w ''unit_group'' params = (Inl SliceBoundsOutOfRange, w) \<and>
   (strings_HasPrefix action ''unit_group'' \<longrightarrow>
      ((\<exists>svc. normalize_svc action = Inr svc) \<longleftrightarrow> 10 < length action))"
proof (intro conjI impI)
  show "WialonAPICall e w ''unit_group'' params = (Inl SliceBoundsOutOfRange, w)"
    unfolding WialonAPICall_def by (simp only: normalize_svc_bare sum.case)
next
  assume "strings_HasPrefix action ''unit_group''"
  then have "normalize_svc action =
    (if 11 \<le> length action then Inr (''unit_group'' @ ''/'' @ drop 11 action)
     else Inl SliceBoundsOutOfRange)"
    by (rule normalize_svc_prefixed)
  then show "(\<exists>svc. normalize_svc action = Inr svc) \<longleftrightarrow> 10 < length action"
    by (cases "11 \<le> length action") simp_all
qed

theorem WialonAPICall_unit_group_panics_witness:
  "WialonAPICall (sample_env ''{}'') sample_client ''unit_group'' (Some []) =
     (Inl SliceBoundsOutOfRange, sample_client) \<and>
   strings_HasPrefix ''unit_group'' ''unit_group'' \<and>
   \<not> (\<exists>svc. normalize_svc ''unit_group'' = Inr svc)"
proof -
  note t = WialonAPICall_unit_group_panics
    [of "sample_env ''{}''" sample_client "Some []" "''unit_group''"]
  have "\<not> 10 < length ''unit_group''"
    by simp
  with t [THEN conjunct2, rule_format, OF HasPrefix_bare]
  have "\<not> (\<exists>svc. normalize_svc ''unit_group'' = Inr svc)"
    by (simp only: simp_thms)
  with t [THEN conjunct1] HasPrefix_bare show ?thesis
    by (intro conjI)
qed

section \<open>Construction\<close>

text \<open>
  Claim C6. With scheme \<open>https\<close> and host \<open>example.com\<close>, the empty port gives the base URL
  \<open>https://example.com/wialon/ajax.html?\<close> and port \<open>443\<close> gives
  \<open>https://example.com:443/wialon/ajax.html?\<close>. In general the base URL is the scheme,
  \<open>://\<close>, the host, a port segment and the fixed path, where the segment is a colon and
  the port when the port is non-empty and is empty otherwise.
\<close>

theorem NewWialon_BaseAPIUrl:
  "BaseAPIUrl (NewWialon ''https'' ''example.com'' '''' sid extraParams) =
     ''https://example.com/wialon/ajax.html?'' \<and>
   BaseAPIUrl (NewWialon ''https'' ''example.com'' ''443'' sid extraParams) =
     ''https://example.com:443/wialon/ajax.html?'' \<and>
   (\<exists>seg. BaseAPIUrl (NewWialon scheme host port sid extraParams) =
        scheme @ ''://'' @ host @ seg @ ''/wialon/ajax.html?'' \<and>
      (port \<noteq> '''' \<longrightarrow> seg = '':'' @ port) \<and>
      (port = '''' \<longrightarrow> seg = '''') \<and>
      (seg \<noteq> '''' \<longleftrightarrow> port \<noteq> ''''))"
proof (intro conjI)
  show "BaseAPIUrl (NewWialon ''https'' ''example.com'' '''' sid extraParams) =
     ''https://example.com/wialon/ajax.html?''"
    by (simp add: NewWialon_def)
  show "BaseAPIUrl (NewWialon ''https'' ''example.com'' ''443'' sid extraParams) =
     ''https://example.com:443/wialon/ajax.html?''"
    by (simp add: NewWialon_def)
  show "\<exists>seg. BaseAPIUrl (NewWialon scheme host port sid extraParams) =
        scheme @ ''://'' @ host @ seg @ ''/wialon/ajax.html?'' \<and>
      (port \<noteq> '''' \<longrightarrow> seg = '':'' @ port) \<and>
      (port = '''' \<longrightarrow> seg = '''') \<and>
      (seg \<noteq> '''' \<longleftrightarrow> port \<noteq> '''')"
    by (rule exI [of _ "if port \<noteq> '''' then '':'' @ port else port"])
       (simp add: NewWialon_def)
qed

theorem NewWialon_BaseAPIUrl_witness:
  "''8022'' \<noteq> '''' \<and>
   BaseAPIUrl (NewWialon ''http'' ''localhost'' ''8022'' '''' None) =
     ''http://localhost:8022/wialon/ajax.html?'' \<and>
   BaseAPIUrl NewDefaultWialon = ''https://hst-api.wialon.com/wialon/ajax.html?''"
proof -
  have ne: "''8022'' \<noteq> ''''"
    by simp
  from NewWialon_BaseAPIUrl [of "''''" None "''http''" "''localhost''" "''8022''", THEN conjunct2,
      THEN conjunct2]
  obtain seg where
    u: "BaseAPIUrl (NewWialon ''http'' ''localhost'' ''8022'' '''' None) =
       ''http'' @ ''://'' @ ''localhost'' @ seg @ ''/wialon/ajax.html?''"
    and p: "''8022'' \<noteq> '''' \<longrightarrow> seg = '':'' @ ''8022''"
    by (elim exE conjE)
  from p ne have "seg = '':'' @ ''8022''"
    by (rule mp)
  with u have a: "BaseAPIUrl (NewWialon ''http'' ''localhost'' ''8022'' '''' None) =
     ''http://localhost:8022/wialon/ajax.html?''"
    by simp
  from NewWialon_BaseAPIUrl [of "''''" "Some []" "''https''" "''hst-api.wialon.com''" "''''",
      THEN conjunct2, THEN conjunct2]
  obtain seg' where
    u': "BaseAPIUrl (NewWialon ''https'' ''hst-api.wialon.com'' '''' '''' (Some [])) =
       ''https'' @ ''://'' @ ''hst-api.wialon.com'' @ seg' @ ''/wialon/ajax.html?''"
    and p': "(''''::string) = '''' \<longrightarrow> seg' = ''''"
    by (elim exE conjE) (rule that, assumption+)
  from p' have "seg' = ''''"
    by (rule mp) (rule refl)
  with u' have b: "BaseAPIUrl NewDefaultWialon = ''https://hst-api.wialon.com/wialon/ajax.html?''"
    by (simp add: NewDefaultWialon_def)
  from ne a b show ?thesis
    by (intro conjI)
qed

section \<open>Default parameters\<close>

lemma assign_entries_Some:
  "assign_entries kvs (Some al) = Inr (Some (fold (\<lambda>(k, v). AList.update k v) kvs al))"
  by (induction kvs arbitrary: al) auto

lemma map_of_fold_update_other:
  "k \<notin> fst ` set kvs \<Longrightarrow> map_of (fold (\<lambda>(k, v). AList.update k v) kvs al) k = map_of al k"
  by (induction kvs arbitrary: al) (auto simp add: update_conv')

lemma map_of_fold_update_entry:
  "distinct (map fst kvs) \<Longrightarrow> (k, v) \<in> set kvs \<Longrightarrow>
   map_of (fold (\<lambda>(k, v). AList.update k v) kvs al) k = Some v"
proof (induction kvs arbitrary: al)
  case Nil
  then show ?case by simp
next
  case (Cons kv kvs)
  obtain k' v' where kv: "kv = (k', v')"
    by (cases kv)
  show ?case
  proof (cases "(k, v) \<in> set kvs")
    case True
    with Cons show ?thesis by simp
  next
    case False
    with Cons.prems kv have eq: "k' = k" "v' = v" and notin: "k \<notin> fst ` set kvs"
      by auto
    then show ?thesis
      by (simp add: kv map_of_fold_update_other update_conv')
  qed
qed

lemma UpdateExtraParams_Some:
  "DefaultParams w = Some al \<Longrightarrow>
   UpdateExtraParams w params =
     Inr (w\<lparr>DefaultParams := Some (fold (\<lambda>(k, v). AList.update k v) (range_entries params) al)\<rparr>)"
  by (simp add: UpdateExtraParams_def assign_entries_Some)

lemma UpdateExtraParams_None:
  "DefaultParams w = None \<Longrightarrow>
   UpdateExtraParams w params =
     (if range_entries params = [] then Inr w else Inl AssignmentToNilMap)"
  by (cases "range_entries params") (auto simp add: UpdateExtraParams_def)

lemma DefaultParams_sample_client: "DefaultParams sample_client = Some [(''lang'', VString ''en'')]"
  by (simp add: sample_client_def NewWialon_def)

text \<open>
  Claim C7, as the code has it. On a client whose \<open>DefaultParams\<close> is not the nil map,
  \<open>UpdateExtraParams\<close> does not fail and merges the entries of its argument: a key the
  argument does not mention keeps its value, and a key it mentions gets the argument's value.
  Called with \<open>a\<close> bound to one value and then to another, it leaves \<open>a\<close> bound to the
  second, every other key as it was.
\<close>

theorem UpdateExtraParams_merges:
  "(DefaultParams w = Some al \<longrightarrow>
      (\<exists>al'. UpdateExtraParams w params = Inr (w\<lparr>DefaultParams := Some al'\<rparr>) \<and>
         (\<forall>k. k \<notin> fst ` set (range_entries params) \<longrightarrow> map_of al' k = map_of al k) \<and>
         (distinct (map fst (range_entries params)) \<longrightarrow>
            (\<forall>(k, v) \<in> set (range_entries params). map_of al' k = Some v)))) \<and>
   (DefaultParams w = Some al \<longrightarrow>
      (\<exists>w1 w2. UpdateExtraParams w (Some [(''a'', v1)]) = Inr w1 \<and>
         UpdateExtraParams w1 (Some [(''a'', v2)]) = Inr w2 \<and>
         map_index (DefaultParams w2) ''a'' = Some v2 \<and>
         (\<forall>k. k \<noteq> ''a'' \<longrightarrow> map_index (DefaultParams w2) k = map_index (DefaultParams w) k) \<and>
         Sid w2 = Sid w \<and> BaseAPIUrl w2 = BaseAPIUrl w))"
proof (intro conjI impI)
  assume dp: "DefaultParams w = Some al"
  let ?al' = "fold (\<lambda>(k, v). AList.update k v) (range_entries params) al"
  have "UpdateExtraParams w params = Inr (w\<lparr>DefaultParams := Some ?al'\<rparr>)"
    using dp by (rule UpdateExtraParams_Some)
  moreover have "\<forall>k. k \<notin> fst ` set (range_entries params) \<longrightarrow> map_of ?al' k = map_of al k"
    by (simp add: map_of_fold_update_other)
  moreover have "distinct (map fst (range_entries params)) \<longrightarrow>
      (\<forall>(k, v) \<in> set (range_entries params). map_of ?al' k = Some v)"
    by (auto simp add: map_of_fold_update_entry)
  ultimately show "\<exists>al'. UpdateExtraParams w params = Inr (w\<lparr>DefaultParams := Some al'\<rparr>) \<and>
         (\<forall>k. k \<notin> fst ` set (range_entries params) \<longrightarrow> map_of al' k = map_of al k) \<and>
         (distinct (map fst (range_entries params)) \<longrightarrow>
            (\<forall>(k, v) \<in> set (range_entries params). map_of al' k = Some v))"
    by (intro exI [of _ ?al'] conjI)
next
  assume dp: "DefaultParams w = Some al"
  let ?w1 = "w\<lparr>DefaultParams := Some (AList.update ''a'' v1 al)\<rparr>"
  let ?w2 = "w\<lparr>DefaultParams := Some (AList.update ''a'' v2 (AList.update ''a'' v1 al))\<rparr>"
  have 1: "UpdateExtraParams w (Some [(''a'', v1)]) = Inr ?w1"
    using UpdateExtraParams_Some [OF dp, of "Some [(''a'', v1)]"]
    by (simp add: range_entries_def)
  have "DefaultParams ?w1 = Some (AList.update ''a'' v1 al)"
    by simp
  from UpdateExtraParams_Some [OF this, of "Some [(''a'', v2)]"]
  have 2: "UpdateExtraParams ?w1 (Some [(''a'', v2)]) = Inr ?w2"
    by (simp add: range_entries_def)
  have 3: "map_index (DefaultParams ?w2) ''a'' = Some v2"
    by (simp add: map_index_def update_conv')
  have 4: "\<forall>k. k \<noteq> ''a'' \<longrightarrow> map_index (DefaultParams ?w2) k = map_index (DefaultParams w) k"
    by (simp add: map_index_def update_conv' dp)
  have 5: "Sid ?w2 = Sid w \<and> BaseAPIUrl ?w2 = BaseAPIUrl w"
    by simp
  from 1 2 3 4 5
  show "\<exists>w1 w2. UpdateExtraParams w (Some [(''a'', v1)]) = Inr w1 \<and>
         UpdateExtraParams w1 (Some [(''a'', v2)]) = Inr w2 \<and>
         map_index (DefaultParams w2) ''a'' = Some v2 \<and>
         (\<forall>k. k \<noteq> ''a'' \<longrightarrow> map_index (DefaultParams w2) k = map_index (DefaultParams w) k) \<and>
         Sid w2 = Sid w \<and> BaseAPIUrl w2 = BaseAPIUrl w"
    by (intro exI [of _ ?w1] exI [of _ ?w2] conjI) (erule conjunct1 conjunct2 | assumption)+
qed

theorem UpdateExtraParams_merges_witness:
  "DefaultParams sample_client = Some [(''lang'', VString ''en'')] \<and>
   (\<exists>w1 w2. UpdateExtraParams sample_client (Some [(''a'', VInt 1)]) = Inr w1 \<and>
      UpdateExtraParams w1 (Some [(''a'', VInt 2)]) = Inr w2 \<and>
      map_index (DefaultParams w2) ''a'' = Some (VInt 2) \<and>
      map_index (DefaultParams w2) ''lang'' = Some (VString ''en''))"
proof -
  note dp = DefaultParams_sample_client
  from UpdateExtraParams_merges [of sample_client "[(''lang'', VString ''en'')]" "Some []" "VInt 1" "VInt 2",
      THEN conjunct2, rule_format, OF dp]
  obtain w1 w2 where 1: "UpdateExtraParams sample_client (Some [(''a'', VInt 1)]) = Inr w1"
    and 2: "UpdateExtraParams w1 (Some [(''a'', VInt 2)]) = Inr w2"
    and 3: "map_index (DefaultParams w2) ''a'' = Some (VInt 2)"
    and 4: "\<forall>k. k \<noteq> ''a'' \<longrightarrow> map_index (DefaultParams w2) k = map_index (DefaultParams sample_client) k"
    by (elim exE conjE)
  have "''lang'' \<noteq> ''a''"
    by simp
  with 4 have "map_index (DefaultParams w2) ''lang'' = map_index (DefaultParams sample_client) ''lang''"
    by (elim allE [of _ "''lang''"] impE) assumption+
  then have 5: "map_index (DefaultParams w2) ''lang'' = Some (VString ''en'')"
    by (simp add: dp map_index_def)
  from 1 2 3 5 have "\<exists>w1 w2. UpdateExtraParams sample_client (Some [(''a'', VInt 1)]) = Inr w1 \<and>
      UpdateExtraParams w1 (Some [(''a'', VInt 2)]) = Inr w2 \<and>
      map_index (DefaultParams w2) ''a'' = Some (VInt 2) \<and>
      map_index (DefaultParams w2) ''lang'' = Some (VString ''en'')"
    by (intro exI [of _ w1] exI [of _ w2] conjI)
  with dp show ?thesis
    by (rule conjI)
qed

text \<open>
  The claim as stated covers every client state; on the client built from the nil map the
  first assignment panics.
\<close>

theorem UpdateExtraParams_nil_map_counterexample:
  "DefaultParams nil_client = None \<and>
   UpdateExtraParams nil_client (Some [(''a'', VInt 1)]) = Inl AssignmentToNilMap"
  by (simp add: nil_client_def NewWialon_def UpdateExtraParams_def range_entries_def)

section \<open>The dispatcher\<close>

lemma map_index_reqParams_update:
  assumes "DefaultParams w = Some al" and "UpdateExtraParams w (reqParams w0 svc params) = Inr w1"
  shows "map_index (DefaultParams w1) ''sid'' = Some (VString (Sid w0))"
    and "map_index (DefaultParams w1) ''svc'' = Some (VString svc)"
    and "map_index (DefaultParams w1) ''params'' = Some (VMap params)"
    and "k \<notin> {''sid'', ''svc'', ''params''} \<Longrightarrow> map_index (DefaultParams w1) k = map_index (DefaultParams w) k"
    and "Sid w1 = Sid w" and "BaseAPIUrl w1 = BaseAPIUrl w"
proof -
  from assms have w1: "w1 = w\<lparr>DefaultParams := Some (AList.update ''params'' (VMap params)
      (AList.update ''svc'' (VString svc) (AList.update ''sid'' (VString (Sid w0)) al)))\<rparr>"
    by (simp add: UpdateExtraParams_Some reqParams_def range_entries_def)
  show "map_index (DefaultParams w1) ''sid'' = Some (VString (Sid w0))"
    and "map_index (DefaultParams w1) ''svc'' = Some (VString svc)"
    and "map_index (DefaultParams w1) ''params'' = Some (VMap params)"
    and "Sid w1 = Sid w" and "BaseAPIUrl w1 = BaseAPIUrl w"
    by (simp_all add: w1 map_index_def update_conv')
  show "map_index (DefaultParams w1) k = map_index (DefaultParams w) k"
    if "k \<notin> {''sid'', ''svc'', ''params''}"
    using that assms(1) by (simp add: w1 map_index_def update_conv')
qed

lemma UpdateExtraParams_reqParams_Inr:
  assumes "UpdateExtraParams w (reqParams w0 svc params) = Inr w1"
  shows "\<exists>al. DefaultParams w = Some al"
proof (cases "DefaultParams w")
  case None
  then show ?thesis
    using assms by (simp add: UpdateExtraParams_None reqParams_def range_entries_def)
next
  case (Some al)
  then show ?thesis by simp
qed

lemma WialonAPICall_Inr:
  assumes "WialonAPICall e w action params = (Inr result, w')"
  shows "\<exists>svc. normalize_svc action = Inr svc \<and> UpdateExtraParams w (reqParams w svc params) = Inr w'"
  using assms unfolding WialonAPICall_def
  by (simp split: sum.splits option.splits)

lemma WialonAPICall_Inr_entries:
  assumes "WialonAPICall e w action params = (Inr result, w')"
  shows "\<exists>svc. normalize_svc action = Inr svc \<and>
         map_index (DefaultParams w') ''sid'' = Some (VString (Sid w)) \<and>
         map_index (DefaultParams w') ''svc'' = Some (VString svc) \<and>
         map_index (DefaultParams w') ''params'' = Some (VMap params) \<and>
         (\<forall>k. k \<notin> {''sid'', ''svc'', ''params''} \<longrightarrow>
            map_index (DefaultParams w') k = map_index (DefaultParams w) k) \<and>
         Sid w' = Sid w \<and> BaseAPIUrl w' = BaseAPIUrl w"
proof -
  from WialonAPICall_Inr [OF assms] obtain svc where n: "normalize_svc action = Inr svc"
    and u: "UpdateExtraParams w (reqParams w svc params) = Inr w'"
    by (elim exE conjE)
  from UpdateExtraParams_reqParams_Inr [OF u] obtain al where dp: "DefaultParams w = Some al"
    by (elim exE)
  note m = map_index_reqParams_update [OF dp u]
  have "\<forall>k. k \<notin> {''sid'', ''svc'', ''params''} \<longrightarrow>
            map_index (DefaultParams w') k = map_index (DefaultParams w) k"
    using m(4) by (intro allI impI)
  with n m(1,2,3,5,6) show ?thesis
    by (intro exI [of _ svc] conjI)
qed

lemma normalize_core_logout: "normalize_svc ''core_logout'' = Inr ''core/logout''"
  by (simp add: normalize_svc_def strings_HasPrefix_def)

lemma normalize_token_login: "normalize_svc ''token_login'' = Inr ''token/login''"
  by (simp add: normalize_svc_def strings_HasPrefix_def)

lemma sample_call_logout:
  "WialonAPICall (sample_env body) sample_client ''core_logout'' (Some []) = (Inr body, after_logout_call)"
  unfolding WialonAPICall_def normalize_core_logout
  by (simp add: UpdateExtraParams_def reqParams_def
      range_entries_def sample_env_def encode_value_def sample_Marshal_def post_query_def
      after_logout_call_def sample_client_def NewWialon_def)

lemma sample_call_login:
  "WialonAPICall (sample_env body) sample_client ''token_login'' (Some [(''token'', VString ''secret'')]) =
     (Inr body, after_login_call)"
  unfolding WialonAPICall_def normalize_token_login
  by (simp add: UpdateExtraParams_def reqParams_def
      range_entries_def sample_env_def encode_value_def sample_Marshal_def post_query_def
      after_login_call_def sample_client_def NewWialon_def)

lemma sample_call_login_after_logout:
  "WialonAPICall (sample_env body) after_logout_call ''token_login'' (Some [(''token'', VString ''secret'')]) =
     (Inr body, after_login_call)"
  unfolding WialonAPICall_def normalize_token_login
  by (simp add: UpdateExtraParams_def reqParams_def
      range_entries_def sample_env_def encode_value_def sample_Marshal_def post_query_def
      after_login_call_def after_logout_call_def sample_client_def NewWialon_def)

lemma WialonAPICall_Sid:
  assumes "WialonAPICall e w action params = (r, w1)"
  shows "Sid w1 = Sid w"
proof -
  have "Sid (snd (WialonAPICall e w action params)) = Sid w"
    unfolding WialonAPICall_def UpdateExtraParams_def
    by (simp split: sum.splits option.splits)
  with assms show ?thesis by simp
qed

lemma float_truncate_zero_iff: "float_truncate r = 0 \<longleftrightarrow> - 1 < r \<and> r < 1"
proof (cases "0 \<le> r")
  case True
  then show ?thesis
    by (auto simp add: float_truncate_def floor_eq_iff)
next
  case False
  then have "\<lfloor>- r\<rfloor> = 0 \<longleftrightarrow> - 1 < r \<and> r < 1"
    by (auto simp add: floor_eq_iff)
  with False show ?thesis
    by (simp add: float_truncate_def)
qed

lemma word64_of_int_zero_iff:
  assumes "- (2 ^ 63) \<le> t" and "t < 2 ^ 63"
  shows "(word_of_int t :: 64 word) = 0 \<longleftrightarrow> t = 0"
proof
  assume "(word_of_int t :: 64 word) = 0"
  then have "(2 :: int) ^ 64 dvd t"
    by (simp add: word_of_int_eq_0_iff)
  then obtain q where q: "t = 2 ^ 64 * q"
    by (elim dvdE)
  with assms have "q = 0"
    by (cases "q \<le> - 1"; cases "1 \<le> q") auto
  with q show "t = 0" by simp
qed simp

lemma int_of_float_in_range:
  "- (2 ^ 63) \<le> float_truncate r \<Longrightarrow> float_truncate r < 2 ^ 63 \<Longrightarrow>
   int_of_float oor (Finite r) = word_of_int (float_truncate r)"
  by (simp add: int_of_float_def)

lemma int_of_float_zero_iff:
  assumes "- (2 ^ 63) \<le> float_truncate r" and "float_truncate r < 2 ^ 63"
  shows "int_of_float oor (Finite r) = 0 \<longleftrightarrow> - 1 < r \<and> r < 1"
  using assms
  by (simp only: int_of_float_in_range word64_of_int_zero_iff float_truncate_zero_iff)

lemma float_truncate_0: "float_truncate 0 = 0"
  by (simp add: float_truncate_def)

lemma int_of_float_0: "int_of_float oor (Finite 0) = 0"
  by (simp add: int_of_float_def float_truncate_0)

lemma sample_Unmarshal_eid:
  \<open>map_index (json_Unmarshal (sample_env b) ''{"eid":"abc123"}'' (Some [])) ''eid'' =
     Some (VString ''abc123'')\<close>
  by (simp add: sample_env_def sample_Unmarshal_def sample_decode_def range_entries_def map_index_def)

lemma sample_Unmarshal_error4:
  \<open>map_index (json_Unmarshal (sample_env b) ''{"error":4}'' (Some [])) ''eid'' = None\<close>
  by (simp add: sample_env_def sample_Unmarshal_def sample_decode_def range_entries_def map_index_def)

lemma sample_Unmarshal_error0:
  \<open>map_index (json_Unmarshal (sample_env b) ''{"error":0}'' (Some [])) ''error'' =
     Some (VFloat64 (Finite 0))\<close>
  by (simp add: sample_env_def sample_Unmarshal_def sample_decode_def range_entries_def map_index_def)

lemma sample_Unmarshal_error1:
  \<open>map_index (json_Unmarshal (sample_env b) ''{"error":1}'' (Some [])) ''error'' =
     Some (VFloat64 (Finite 1))\<close>
  by (simp add: sample_env_def sample_Unmarshal_def sample_decode_def range_entries_def map_index_def)

lemma sample_Unmarshal_error_half:
  \<open>map_index (json_Unmarshal (sample_env b) ''{"error":0.5}'' (Some [])) ''error'' =
     Some (VFloat64 (Finite (1 / 2)))\<close>
  by (simp add: sample_env_def sample_Unmarshal_def sample_decode_def range_entries_def map_index_def)

lemma sample_Unmarshal_error7:
  \<open>map_index (json_Unmarshal (sample_env b) ''{"error":7}'' (Some [])) ''error'' =
     Some (VFloat64 (Finite 7))\<close>
  by (simp add: sample_env_def sample_Unmarshal_def sample_decode_def range_entries_def map_index_def)

lemma sample_Unmarshal_error65543:
  \<open>map_index (json_Unmarshal (sample_env b) ''{"error":65543}'' (Some [])) ''error'' =
     Some (VFloat64 (Finite 65543))\<close>
  by (simp add: sample_env_def sample_Unmarshal_def sample_decode_def range_entries_def map_index_def)

lemma sample_Unmarshal_empty:
  \<open>map_index (json_Unmarshal (sample_env b) ''{}'' (Some [])) ''error'' = None\<close>
  by (simp add: sample_env_def sample_Unmarshal_def sample_decode_def range_entries_def map_index_def)

lemma sample_Unmarshal_invalid:
  \<open>map_index (json_Unmarshal (sample_env b) ''<html>'' (Some [])) ''error'' = None\<close>
  by (simp add: sample_env_def sample_Unmarshal_def sample_decode_def range_entries_def map_index_def)

lemma sample_Unmarshal_error_string:
  \<open>map_index (json_Unmarshal (sample_env b) ''{"error":"7"}'' (Some [])) ''error'' =
     Some (VString ''7'')\<close>
  by (simp add: sample_env_def sample_Unmarshal_def sample_decode_def range_entries_def map_index_def)

lemma float_truncate_half: "float_truncate (1 / 2) = 0"
  by (simp add: float_truncate_def)

lemma float_truncate_1: "float_truncate 1 = 1"
  by (simp add: float_truncate_def)

lemma int_of_float_half: "int_of_float oor (Finite (1 / 2)) = 0"
  by (simp add: int_of_float_def float_truncate_half)

lemma int_of_float_1: "int_of_float oor (Finite 1) = 1"
  by (simp add: int_of_float_def float_truncate_1)

lemma Sid_sample_client: "Sid sample_client = ''s1''"
  by (simp add: sample_client_def NewWialon_def)

text \<open>
  Claim C9. After a \<open>WialonAPICall\<close> that returns, \<open>DefaultParams\<close> holds under \<open>sid\<close>,
  \<open>svc\<close> and \<open>params\<close> the session id the call started with, its normalized service name
  and its parameter map, and every other key has the value it had before; the session id and
  the base URL are unchanged. The entries stay in the client: after a second call that
  returns, the three keys hold the second call's values and every other key still has the
  value it had before the first call.
\<close>

theorem WialonAPICall_mutates_DefaultParams:
  "(WialonAPICall e w action params = (Inr result, w') \<longrightarrow>
      (\<exists>svc. normalize_svc action = Inr svc \<and>
         map_index (DefaultParams w') ''sid'' = Some (VString (Sid w)) \<and>
         map_index (DefaultParams w') ''svc'' = Some (VString svc) \<and>
         map_index (DefaultParams w') ''params'' = Some (VMap params) \<and>
         (\<forall>k. k \<notin> {''sid'', ''svc'', ''params''} \<longrightarrow>
            map_index (DefaultParams w') k = map_index (DefaultParams w) k) \<and>
         Sid w' = Sid w \<and> BaseAPIUrl w' = BaseAPIUrl w)) \<and>
   (WialonAPICall e w action params = (Inr result, w') \<and>
    WialonAPICall e2 w' action2 params2 = (Inr result2, w'') \<longrightarrow>
      (\<exists>svc2. normalize_svc action2 = Inr svc2 \<and>
         map_index (DefaultParams w'') ''sid'' = Some (VString (Sid w)) \<and>
         map_index (DefaultParams w'') ''svc'' = Some (VString svc2) \<and>
         map_index (DefaultParams w'') ''params'' = Some (VMap params2) \<and>
         (\<forall>k. k \<notin> {''sid'', ''svc'', ''params''} \<longrightarrow>
            map_index (DefaultParams w'') k = map_index (DefaultParams w) k)))"
proof (intro conjI impI)
  assume "WialonAPICall e w action params = (Inr result, w')"
  then show "\<exists>svc. normalize_svc action = Inr svc \<and>
         map_index (DefaultParams w') ''sid'' = Some (VString (Sid w)) \<and>
         map_index (DefaultParams w') ''svc'' = Some (VString svc) \<and>
         map_index (DefaultParams w') ''params'' = Some (VMap params) \<and>
         (\<forall>k. k \<notin> {''sid'', ''svc'', ''params''} \<longrightarrow>
            map_index (DefaultParams w') k = map_index (DefaultParams w) k) \<and>
         Sid w' = Sid w \<and> BaseAPIUrl w' = BaseAPIUrl w"
    by (rule WialonAPICall_Inr_entries)
next
  assume a: "WialonAPICall e w action params = (Inr result, w') \<and>
    WialonAPICall e2 w' action2 params2 = (Inr result2, w'')"
  from a [THEN conjunct1, THEN WialonAPICall_Inr_entries]
  obtain svc where first: "\<forall>k. k \<notin> {''sid'', ''svc'', ''params''} \<longrightarrow>
            map_index (DefaultParams w') k = map_index (DefaultParams w) k"
    and sid: "Sid w' = Sid w"
    by (elim exE conjE)
  from a [THEN conjunct2, THEN WialonAPICall_Inr_entries]
  obtain svc2 where n: "normalize_svc action2 = Inr svc2"
    and 1: "map_index (DefaultParams w'') ''sid'' = Some (VString (Sid w'))"
    and 2: "map_index (DefaultParams w'') ''svc'' = Some (VString svc2)"
    and 3: "map_index (DefaultParams w'') ''params'' = Some (VMap params2)"
    and second: "\<forall>k. k \<notin> {''sid'', ''svc'', ''params''} \<longrightarrow>
            map_index (DefaultParams w'') k = map_index (DefaultParams w') k"
    by (elim exE conjE)
  from first second have "\<forall>k. k \<notin> {''sid'', ''svc'', ''params''} \<longrightarrow>
            map_index (DefaultParams w'') k = map_index (DefaultParams w) k"
    by (intro allI impI) (elim allE impE, assumption+, erule (1) trans)
  with n 1 2 3 sid
  show "\<exists>svc2. normalize_svc action2 = Inr svc2 \<and>
         map_index (DefaultParams w'') ''sid'' = Some (VString (Sid w)) \<and>
         map_index (DefaultParams w'') ''svc'' = Some (VString svc2) \<and>
         map_index (DefaultParams w'') ''params'' = Some (VMap params2) \<and>
         (\<forall>k. k \<notin> {''sid'', ''svc'', ''params''} \<longrightarrow>
            map_index (DefaultParams w'') k = map_index (DefaultParams w) k)"
    by (intro exI [of _ svc2] conjI) (simp_all only:)
qed

theorem WialonAPICall_mutates_DefaultParams_witness:
  \<open>WialonAPICall (sample_env ''{"error":0}'') sample_client ''core_logout'' (Some []) =
     (Inr ''{"error":0}'', after_logout_call) \<and>
   WialonAPICall (sample_env ''{"eid":"abc123"}'') after_logout_call ''token_login''
      (Some [(''token'', VString ''secret'')]) = (Inr ''{"eid":"abc123"}'', after_login_call) \<and>
   map_index (DefaultParams after_logout_call) ''sid'' = Some (VString (Sid sample_client)) \<and>
   map_index (DefaultParams after_logout_call) ''svc'' = Some (VString ''core/logout'') \<and>
   map_index (DefaultParams after_logout_call) ''params'' = Some (VMap (Some [])) \<and>
   map_index (DefaultParams after_logout_call) ''lang'' = map_index (DefaultParams sample_client) ''lang'' \<and>
   map_index (DefaultParams after_login_call) ''svc'' = Some (VString ''token/login'') \<and>
   map_index (DefaultParams after_login_call) ''params'' =
     Some (VMap (Some [(''token'', VString ''secret'')])) \<and>
   map_index (DefaultParams after_login_call) ''lang'' = map_index (DefaultParams sample_client) ''lang''\<close>
proof -
  note call1 = sample_call_logout [of \<open>''{"error":0}''\<close>]
  note call2 = sample_call_login_after_logout [of \<open>''{"eid":"abc123"}''\<close>]
  note t = WialonAPICall_mutates_DefaultParams [where e = \<open>sample_env ''{"error":0}''\<close>
      and w = sample_client and action = "''core_logout''" and params = "Some []"
      and result = \<open>''{"error":0}''\<close> and w' = after_logout_call
      and ?e2.0 = \<open>sample_env ''{"eid":"abc123"}''\<close> and ?action2.0 = "''token_login''"
      and ?params2.0 = "Some [(''token'', VString ''secret'')]"
      and ?result2.0 = \<open>''{"eid":"abc123"}''\<close> and w'' = after_login_call]
  have lang: "''lang'' \<notin> {''sid'', ''svc'', ''params''}"
    by simp
  from t [THEN conjunct1, rule_format, OF call1]
  obtain svc where n: "normalize_svc ''core_logout'' = Inr svc"
    and 1: "map_index (DefaultParams after_logout_call) ''sid'' = Some (VString (Sid sample_client))"
    and 2: "map_index (DefaultParams after_logout_call) ''svc'' = Some (VString svc)"
    and 3: "map_index (DefaultParams after_logout_call) ''params'' = Some (VMap (Some []))"
    and 4: "\<forall>k. k \<notin> {''sid'', ''svc'', ''params''} \<longrightarrow>
        map_index (DefaultParams after_logout_call) k = map_index (DefaultParams sample_client) k"
    by (elim exE conjE)
  from n have "svc = ''core/logout''"
    by (simp only: normalize_core_logout sum.inject)
  with 2 have 2: "map_index (DefaultParams after_logout_call) ''svc'' = Some (VString ''core/logout'')"
    by (simp only:)
  from 4 lang have 4: "map_index (DefaultParams after_logout_call) ''lang'' =
      map_index (DefaultParams sample_client) ''lang''"
    by (elim allE [of _ "''lang''"] impE) assumption+
  from t [THEN conjunct2, rule_format, OF conjI [OF call1 call2]]
  obtain svc2 where n: "normalize_svc ''token_login'' = Inr svc2"
    and 5: "map_index (DefaultParams after_login_call) ''svc'' = Some (VString svc2)"
    and 6: "map_index (DefaultParams after_login_call) ''params'' =
       Some (VMap (Some [(''token'', VString ''secret'')]))"
    and 7: "\<forall>k. k \<notin> {''sid'', ''svc'', ''params''} \<longrightarrow>
        map_index (DefaultParams after_login_call) k = map_index (DefaultParams sample_client) k"
    by (elim exE conjE)
  from n have "svc2 = ''token/login''"
    by (simp only: normalize_token_login sum.inject)
  with 5 have 5: "map_index (DefaultParams after_login_call) ''svc'' = Some (VString ''token/login'')"
    by (simp only:)
  from 7 lang have 7: "map_index (DefaultParams after_login_call) ''lang'' =
      map_index (DefaultParams sample_client) ''lang''"
    by (elim allE [of _ "''lang''"] impE) assumption+
  from call1 call2 1 2 3 4 5 6 7 show ?thesis
    by (intro conjI)
qed

section \<open>Session\<close>

lemma sample_Unmarshal_eid_number:
  \<open>map_index (json_Unmarshal (sample_env b) ''{"eid":5}'' (Some [])) ''eid'' =
     Some (VFloat64 (Finite 5))\<close>
  by (simp add: sample_env_def sample_Unmarshal_def sample_decode_def range_entries_def map_index_def)

text \<open>
  Claim C2. When the call behind \<open>Login\<close> returns a body and the decoded body has a string
  under \<open>eid\<close>, \<open>Sid\<close> becomes that string and \<open>Login\<close> returns the body with true. When
  the decoded body has no string under \<open>eid\<close> (the key is absent, or bound to anything
  else), \<open>Login\<close> returns the body with false and \<open>Sid\<close> is as before. A panic of the call
  is a panic of \<open>Login\<close>.
\<close>

theorem Login_sets_Sid:
  "(WialonAPICall e w ''token_login'' (Some [(''token'', VString token)]) = (Inr result, w1) \<and>
    map_index (json_Unmarshal e result (Some [])) ''eid'' = Some (VString eid) \<longrightarrow>
      Login e w token = (Inr (result, True), w1\<lparr>Sid := eid\<rparr>)) \<and>
   (WialonAPICall e w ''token_login'' (Some [(''token'', VString token)]) = (Inr result, w1) \<and>
    (\<forall>eid. map_index (json_Unmarshal e result (Some [])) ''eid'' \<noteq> Some (VString eid)) \<longrightarrow>
      Login e w token = (Inr (result, False), w1) \<and> Sid w1 = Sid w) \<and>
   (WialonAPICall e w ''token_login'' (Some [(''token'', VString token)]) = (Inl p, w1) \<longrightarrow>
      Login e w token = (Inl p, w1))"
proof (intro conjI impI)
  assume "WialonAPICall e w ''token_login'' (Some [(''token'', VString token)]) = (Inr result, w1) \<and>
    map_index (json_Unmarshal e result (Some [])) ''eid'' = Some (VString eid)"
  then show "Login e w token = (Inr (result, True), w1\<lparr>Sid := eid\<rparr>)"
    unfolding Login_def by simp
next
  assume a: "WialonAPICall e w ''token_login'' (Some [(''token'', VString token)]) = (Inr result, w1) \<and>
    (\<forall>eid. map_index (json_Unmarshal e result (Some [])) ''eid'' \<noteq> Some (VString eid))"
  then show "Login e w token = (Inr (result, False), w1)"
    unfolding Login_def by (simp split: option.splits gval.splits)
  from a show "Sid w1 = Sid w"
    by (intro WialonAPICall_Sid) (erule conjunct1)
next
  assume "WialonAPICall e w ''token_login'' (Some [(''token'', VString token)]) = (Inl p, w1)"
  then show "Login e w token = (Inl p, w1)"
    unfolding Login_def by simp
qed

theorem Login_sets_Sid_witness:
  \<open>WialonAPICall (sample_env ''{"eid":"abc123"}'') sample_client ''token_login''
      (Some [(''token'', VString ''secret'')]) = (Inr ''{"eid":"abc123"}'', after_login_call) \<and>
   map_index (json_Unmarshal (sample_env ''{"eid":"abc123"}'') ''{"eid":"abc123"}'' (Some [])) ''eid'' =
     Some (VString ''abc123'') \<and>
   Login (sample_env ''{"eid":"abc123"}'') sample_client ''secret'' =
     (Inr (''{"eid":"abc123"}'', True), after_login_call\<lparr>Sid := ''abc123''\<rparr>) \<and>
   map_index (json_Unmarshal (sample_env ''{"error":4}'') ''{"error":4}'' (Some [])) ''eid'' = None \<and>
   Login (sample_env ''{"error":4}'') sample_client ''secret'' =
     (Inr (''{"error":4}'', False), after_login_call) \<and>
   map_index (json_Unmarshal (sample_env ''{"eid":5}'') ''{"eid":5}'' (Some [])) ''eid'' =
     Some (VFloat64 (Finite 5)) \<and>
   Login (sample_env ''{"eid":5}'') sample_client ''secret'' =
     (Inr (''{"eid":5}'', False), after_login_call) \<and>
   Sid after_login_call = Sid sample_client\<close>
proof -
  note t1 = Login_sets_Sid [where e = \<open>sample_env ''{"eid":"abc123"}''\<close> and w = sample_client
      and token = "''secret''" and result = \<open>''{"eid":"abc123"}''\<close> and ?w1.0 = after_login_call
      and eid = "''abc123''", THEN conjunct1, rule_format]
  note t2 = Login_sets_Sid [where e = \<open>sample_env ''{"error":4}''\<close> and w = sample_client
      and token = "''secret''" and result = \<open>''{"error":4}''\<close> and ?w1.0 = after_login_call,
      THEN conjunct2, THEN conjunct1, rule_format]
  note t3 = Login_sets_Sid [where e = \<open>sample_env ''{"eid":5}''\<close> and w = sample_client
      and token = "''secret''" and result = \<open>''{"eid":5}''\<close> and ?w1.0 = after_login_call,
      THEN conjunct2, THEN conjunct1, rule_format]
  have c1: \<open>Login (sample_env ''{"eid":"abc123"}'') sample_client ''secret'' =
     (Inr (''{"eid":"abc123"}'', True), after_login_call\<lparr>Sid := ''abc123''\<rparr>)\<close>
    by (rule t1) (rule conjI [OF sample_call_login sample_Unmarshal_eid])
  have \<open>\<forall>eid. map_index (json_Unmarshal (sample_env ''{"error":4}'') ''{"error":4}'' (Some [])) ''eid'' \<noteq>
      Some (VString eid)\<close>
    by (simp only: sample_Unmarshal_error4) simp
  with sample_call_login
  have c2: \<open>Login (sample_env ''{"error":4}'') sample_client ''secret'' =
     (Inr (''{"error":4}'', False), after_login_call) \<and> Sid after_login_call = Sid sample_client\<close>
    by (intro t2 conjI)
  have \<open>\<forall>eid. map_index (json_Unmarshal (sample_env ''{"eid":5}'') ''{"eid":5}'' (Some [])) ''eid'' \<noteq>
      Some (VString eid)\<close>
    by (simp only: sample_Unmarshal_eid_number) simp
  with sample_call_login
  have c3: \<open>Login (sample_env ''{"eid":5}'') sample_client ''secret'' =
     (Inr (''{"eid":5}'', False), after_login_call) \<and> Sid after_login_call = Sid sample_client\<close>
    by (intro t3 conjI)
  from sample_call_login sample_Unmarshal_eid c1 sample_Unmarshal_error4 c2 [THEN conjunct1]
    sample_Unmarshal_eid_number c3
  show ?thesis
    by (intro conjI) (erule conjunct1 conjunct2 | assumption)+
qed

text \<open>
  Claim C3, as the code has it. When the call behind \<open>Logout\<close> returns a body and the decoded
  body has a number under \<open>error\<close> whose conversion to \<open>int\<close> is zero, \<open>Sid\<close> becomes the
  empty string and \<open>Logout\<close> returns the body with true; in every other case it returns the
  body with false and \<open>Sid\<close> is as before. The conversion discards the fraction: for a
  number whose integer part fits an \<open>int\<close> it is zero exactly when the number lies strictly
  between -1 and 1.
\<close>

theorem Logout_clears_Sid:
  "(WialonAPICall e w ''core_logout'' (Some []) = (Inr result, w1) \<and>
    map_index (json_Unmarshal e result (Some [])) ''error'' = Some (VFloat64 err) \<and>
    int_of_float (float_oor e) err = 0 \<longrightarrow>
      Logout e w = (Inr (result, True), w1\<lparr>Sid := ''''\<rparr>)) \<and>
   (WialonAPICall e w ''core_logout'' (Some []) = (Inr result, w1) \<and>
    (\<forall>err. map_index (json_Unmarshal e result (Some [])) ''error'' = Some (VFloat64 err) \<longrightarrow>
       int_of_float (float_oor e) err \<noteq> 0) \<longrightarrow>
      Logout e w = (Inr (result, False), w1) \<and> Sid w1 = Sid w) \<and>
   (WialonAPICall e w ''core_logout'' (Some []) = (Inl p, w1) \<longrightarrow> Logout e w = (Inl p, w1)) \<and>
   (- (2 ^ 63) \<le> float_truncate r \<and> float_truncate r < 2 ^ 63 \<longrightarrow>
      (int_of_float (float_oor e) (Finite r) = 0 \<longleftrightarrow> - 1 < r \<and> r < 1))"
proof (intro conjI impI)
  assume "WialonAPICall e w ''core_logout'' (Some []) = (Inr result, w1) \<and>
    map_index (json_Unmarshal e result (Some [])) ''error'' = Some (VFloat64 err) \<and>
    int_of_float (float_oor e) err = 0"
  then show "Logout e w = (Inr (result, True), w1\<lparr>Sid := ''''\<rparr>)"
    unfolding Logout_def by simp
next
  assume a: "WialonAPICall e w ''core_logout'' (Some []) = (Inr result, w1) \<and>
    (\<forall>err. map_index (json_Unmarshal e result (Some [])) ''error'' = Some (VFloat64 err) \<longrightarrow>
       int_of_float (float_oor e) err \<noteq> 0)"
  then show "Logout e w = (Inr (result, False), w1)"
    unfolding Logout_def by (simp split: option.splits gval.splits)
  from a show "Sid w1 = Sid w"
    by (intro WialonAPICall_Sid) (erule conjunct1)
next
  assume "WialonAPICall e w ''core_logout'' (Some []) = (Inl p, w1)"
  then show "Logout e w = (Inl p, w1)"
    unfolding Logout_def by simp
next
  assume "- (2 ^ 63) \<le> float_truncate r \<and> float_truncate r < 2 ^ 63"
  then show "int_of_float (float_oor e) (Finite r) = 0 \<longleftrightarrow> - 1 < r \<and> r < 1"
    by (intro int_of_float_zero_iff) (erule conjunct1 conjunct2)+
qed

theorem Logout_clears_Sid_witness:
  \<open>WialonAPICall (sample_env ''{"error":0}'') sample_client ''core_logout'' (Some []) =
     (Inr ''{"error":0}'', after_logout_call) \<and>
   map_index (json_Unmarshal (sample_env ''{"error":0}'') ''{"error":0}'' (Some [])) ''error'' =
     Some (VFloat64 (Finite 0)) \<and>
   Logout (sample_env ''{"error":0}'') sample_client =
     (Inr (''{"error":0}'', True), after_logout_call\<lparr>Sid := ''''\<rparr>) \<and>
   map_index (json_Unmarshal (sample_env ''{"error":1}'') ''{"error":1}'' (Some [])) ''error'' =
     Some (VFloat64 (Finite 1)) \<and>
   Logout (sample_env ''{"error":1}'') sample_client = (Inr (''{"error":1}'', False), after_logout_call) \<and>
   Sid after_logout_call = Sid sample_client \<and>
   map_index (json_Unmarshal (sample_env ''{}'') ''{}'' (Some [])) ''error'' = None \<and>
   Logout (sample_env ''{}'') sample_client = (Inr (''{}'', False), after_logout_call)\<close>
proof -
  note t1 = Logout_clears_Sid [where e = \<open>sample_env ''{"error":0}''\<close> and w = sample_client
      and result = \<open>''{"error":0}''\<close> and ?w1.0 = after_logout_call and err = "Finite 0",
      THEN conjunct1, rule_format]
  note t2 = Logout_clears_Sid [where e = \<open>sample_env ''{"error":1}''\<close> and w = sample_client
      and result = \<open>''{"error":1}''\<close> and ?w1.0 = after_logout_call,
      THEN conjunct2, THEN conjunct1, rule_format]
  note t3 = Logout_clears_Sid [where e = \<open>sample_env ''{}''\<close> and w = sample_client
      and result = \<open>''{}''\<close> and ?w1.0 = after_logout_call,
      THEN conjunct2, THEN conjunct1, rule_format]
  have c1: \<open>Logout (sample_env ''{"error":0}'') sample_client =
     (Inr (''{"error":0}'', True), after_logout_call\<lparr>Sid := ''''\<rparr>)\<close>
    by (rule t1) (intro conjI sample_call_logout sample_Unmarshal_error0 int_of_float_0)
  have \<open>\<forall>err. map_index (json_Unmarshal (sample_env ''{"error":1}'') ''{"error":1}'' (Some [])) ''error'' =
      Some (VFloat64 err) \<longrightarrow> int_of_float (float_oor (sample_env ''{"error":1}'')) err \<noteq> 0\<close>
    by (simp only: sample_Unmarshal_error1) (simp add: int_of_float_1)
  with sample_call_logout
  have c2: \<open>Logout (sample_env ''{"error":1}'') sample_client =
     (Inr (''{"error":1}'', False), after_logout_call) \<and> Sid after_logout_call = Sid sample_client\<close>
    by (intro t2 conjI)
  have \<open>\<forall>err. map_index (json_Unmarshal (sample_env ''{}'') ''{}'' (Some [])) ''error'' =
      Some (VFloat64 err) \<longrightarrow> int_of_float (float_oor (sample_env ''{}'')) err \<noteq> 0\<close>
    by (simp only: sample_Unmarshal_empty) simp
  with sample_call_logout
  have c3: \<open>Logout (sample_env ''{}'') sample_client =
     (Inr (''{}'', False), after_logout_call) \<and> Sid after_logout_call = Sid sample_client\<close>
    by (intro t3 conjI)
  from sample_call_logout [of \<open>''{"error":0}''\<close>] sample_Unmarshal_error0 c1
    sample_Unmarshal_error1 c2 sample_Unmarshal_empty c3
  show ?thesis
    by (intro conjI) (erule conjunct1 conjunct2 | assumption)+
qed

text \<open>
  The claim as stated has a non-zero \<open>error\<close> leave the session alone; the body
  \<open>{"error":0.5}\<close> logs out.
\<close>

theorem Logout_fraction_counterexample:
  \<open>Sid sample_client = ''s1'' \<and>
   map_index (json_Unmarshal (sample_env ''{"error":0.5}'') ''{"error":0.5}'' (Some [])) ''error'' =
     Some (VFloat64 (Finite (1 / 2))) \<and>
   Logout (sample_env ''{"error":0.5}'') sample_client =
     (Inr (''{"error":0.5}'', True), after_logout_call\<lparr>Sid := ''''\<rparr>)\<close>
  unfolding Logout_def sample_call_logout
  by (simp add: sample_Unmarshal_error_half int_of_float_half Sid_sample_client)

section \<open>Error decoding\<close>

lemma ErrorHandler_number:
  assumes "map_index (json_Unmarshal e res (Some [])) ''error'' = Some (VFloat64 f)"
  shows "ErrorHandler e res =
    (WialonError_of_int (int_of_float (float_oor e) f),
     WialonErrors_index (WialonError_of_int (int_of_float (float_oor e) f)))"
  using assms by (simp add: ErrorHandler_def Let_def)

lemma WialonErrors_keys: "distinct (map fst WialonErrors)"
  by (simp add: WialonErrors_def InvalidSession_def InvalidService_def InvalidResult_def
      InvalidInput_def ErrPerformReq_def UnknownError_def AccessDenied_def
      InvalidUserNameOrPassword_def AuthServerUnavailable_def NoMsgForSelectedInterval_def
      ItemAlreadyExists_def OneReqAllowed_def MsgLimitExceeded_def ExecutionTimeExceeded_def
      LimitAttemptsTwoFactAuth_def IPChangedOrSessExpired_def UserCannotBeBoundToAcc_def
      SensDeletingForbidden_def)

lemma WialonErrors_index_entry:
  assumes "(we, msg) \<in> set WialonErrors"
  shows "WialonErrors_index we = msg"
  using assms WialonErrors_keys by (simp add: WialonErrors_index_def)

lemma WialonErrors_index_0: "WialonErrors_index 0 = ''''"
  by (simp add: WialonErrors_index_def WialonErrors_def InvalidSession_def InvalidService_def
      InvalidResult_def InvalidInput_def ErrPerformReq_def UnknownError_def AccessDenied_def
      InvalidUserNameOrPassword_def AuthServerUnavailable_def NoMsgForSelectedInterval_def
      ItemAlreadyExists_def OneReqAllowed_def MsgLimitExceeded_def ExecutionTimeExceeded_def
      LimitAttemptsTwoFactAuth_def IPChangedOrSessExpired_def UserCannotBeBoundToAcc_def
      SensDeletingForbidden_def)

lemma WialonErrors_index_AccessDenied: "WialonErrors_index AccessDenied = ''Access denied''"
  by (rule WialonErrors_index_entry) (simp add: WialonErrors_def)

lemma WialonError_of_int_0: "WialonError_of_int 0 = 0"
  by (simp add: WialonError_of_int_def)

lemma ErrorHandler_no_number:
  assumes "\<forall>f. map_index (json_Unmarshal e res (Some [])) ''error'' \<noteq> Some (VFloat64 f)"
  shows "ErrorHandler e res = (0, '''')"
proof -
  from assms have "(case map_index (json_Unmarshal e res (Some [])) ''error'' of
      Some (VFloat64 f) \<Rightarrow> f | _ \<Rightarrow> Finite 0) = Finite 0"
    by (simp split: option.splits gval.splits)
  then show ?thesis
    by (simp add: ErrorHandler_def Let_def int_of_float_0 WialonError_of_int_0 WialonErrors_index_0)
qed

lemma float_truncate_of_int: "float_truncate (of_int n) = n"
  by (simp add: float_truncate_def)

lemma int_of_float_of_int:
  "- (2 ^ 63) \<le> n \<Longrightarrow> n < 2 ^ 63 \<Longrightarrow> int_of_float oor (Finite (real_of_int n)) = word_of_int n"
  by (simp add: int_of_float_def float_truncate_of_int)

lemma WialonError_of_int_word_of_int: "WialonError_of_int (word_of_int n) = word_of_int n"
proof -
  have "take_bit 16 (signed_take_bit 63 n) = take_bit 16 n"
    by (rule take_bit_signed_take_bit) simp
  then show ?thesis
    by (simp add: WialonError_of_int_def scast_eq sint_sbintrunc' word_of_int_eq_iff)
qed

lemma sint_WialonError_range: "- (2 ^ 63) \<le> sint (we :: WialonError)" "sint we < 2 ^ 63"
proof -
  have "- (2 ^ 15) \<le> sint we" and "sint we < 2 ^ 15"
    using sint_ge [of we] sint_lt [of we] by simp_all
  then show "- (2 ^ 63) \<le> sint we" and "sint we < 2 ^ 63"
    by simp_all
qed

lemma ErrorHandler_code:
  assumes "map_index (json_Unmarshal e res (Some [])) ''error'' =
      Some (VFloat64 (Finite (real_of_int (sint we))))"
  shows "ErrorHandler e res = (we, WialonErrors_index we)"
proof -
  have i: "int_of_float (float_oor e) (Finite (real_of_int (sint we))) = word_of_int (sint we)"
    using sint_WialonError_range [of we] by (rule int_of_float_of_int)
  have "(word_of_int (sint we) :: WialonError) = we"
    by simp
  then have w: "WialonError_of_int (word_of_int (sint we)) = we"
    by (simp only: WialonError_of_int_word_of_int)
  from ErrorHandler_number [OF assms] show ?thesis
    by (simp only: i w)
qed

lemma sint_AccessDenied: "real_of_int (sint AccessDenied) = 7"
  by (simp add: AccessDenied_def)

lemma sample_Unmarshal_error4_code:
  \<open>map_index (json_Unmarshal (sample_env b) ''{"error":4}'' (Some [])) ''error'' =
     Some (VFloat64 (Finite 4))\<close>
  by (simp add: sample_env_def sample_Unmarshal_def sample_decode_def range_entries_def map_index_def)

lemma sample_Unmarshal_no_number:
  \<open>\<forall>f. map_index (json_Unmarshal (sample_env b) ''{}'' (Some [])) ''error'' \<noteq> Some (VFloat64 f)\<close>
  \<open>\<forall>f. map_index (json_Unmarshal (sample_env b) ''<html>'' (Some [])) ''error'' \<noteq> Some (VFloat64 f)\<close>
  \<open>\<forall>f. map_index (json_Unmarshal (sample_env b) ''{"error":"7"}'' (Some [])) ''error'' \<noteq>
     Some (VFloat64 f)\<close>
  by (simp_all only: sample_Unmarshal_empty sample_Unmarshal_invalid sample_Unmarshal_error_string)
    simp_all

lemma sint_InvalidInput: "real_of_int (sint InvalidInput) = 4"
  by (simp add: InvalidInput_def)

lemma InvalidInput_entry: "(InvalidInput, ''Invalid input'') \<in> set WialonErrors"
  by (simp add: WialonErrors_def)

lemma sint_word16_of_int: "sint (word_of_int k :: 16 word) = (k + 2 ^ 15) mod 2 ^ 16 - 2 ^ 15"
  by (simp add: sint_sbintrunc' signed_take_bit_eq_take_bit_shift take_bit_eq_mod)

lemma word16_of_int_cong:
  assumes "65536 dvd (a - b :: int)"
  shows "(word_of_int a :: 16 word) = word_of_int b"
proof -
  from assms have "a mod 65536 = b mod 65536"
    by (simp add: mod_eq_dvd_iff)
  then show ?thesis
    by (simp add: word_of_int_eq_iff take_bit_eq_mod)
qed

lemma ErrorHandler_number_code:
  assumes "map_index (json_Unmarshal e res (Some [])) ''error'' = Some (VFloat64 f)"
  shows "ErrorHandler e res =
    (word_of_int (sint (int_of_float (float_oor e) f)),
     WialonErrors_index (word_of_int (sint (int_of_float (float_oor e) f))))"
  unfolding ErrorHandler_number [OF assms] WialonError_of_int_def scast_eq ..

lemma float_truncate_65543: "float_truncate 65543 = 65543"
  by (simp add: float_truncate_def)

lemma int_of_float_65543: "int_of_float oor (Finite 65543) = 65543"
  by (simp add: int_of_float_def float_truncate_65543)

lemma WialonError_of_int_65543: "WialonError_of_int 65543 = AccessDenied"
  by (simp add: WialonError_of_int_def AccessDenied_def)

lemma sample_Unmarshal_error65543_int:
  \<open>map_index (json_Unmarshal (sample_env b) ''{"error":65543}'' (Some [])) ''error'' =
     Some (VFloat64 (Finite (real_of_int 65543)))\<close>
  using sample_Unmarshal_error65543 [of b] by simp

lemma sample_Unmarshal_error7_int:
  \<open>map_index (json_Unmarshal (sample_env b) ''{"error":7}'' (Some [])) ''error'' =
     Some (VFloat64 (Finite (real_of_int 7)))\<close>
  using sample_Unmarshal_error7 [of b] by simp

lemma int64_range_examples:
  "- (2 ^ 63) \<le> (65543 :: int) \<and> (65543 :: int) < 2 ^ 63 \<and>
   - (2 ^ 63) \<le> (7 :: int) \<and> (7 :: int) < 2 ^ 63 \<and> (65536 :: int) dvd 65543 - 7"
  by simp

text \<open>
  Claim C4. \<open>ErrorHandler\<close> always returns a code and a description; no step of it can
  panic. When the decoded body has the number 7 under \<open>error\<close> it returns \<open>AccessDenied\<close> and
  \<open>Access denied\<close>; when it has the number of any code of the table, it returns that code
  and the table's description of it; and when it has no number under \<open>error\<close> (the key is
  absent, as for \<open>{}\<close> or for a body that is not JSON, or bound to something else) it
  returns the code 0 and the empty description.
\<close>

theorem ErrorHandler_decodes:
  "(\<exists>we msg. ErrorHandler e res = (we, msg)) \<and>
   (map_index (json_Unmarshal e res (Some [])) ''error'' = Some (VFloat64 (Finite 7)) \<longrightarrow>
      ErrorHandler e res = (AccessDenied, ''Access denied'')) \<and>
   (\<forall>(we, msg) \<in> set WialonErrors.
      map_index (json_Unmarshal e res (Some [])) ''error'' =
        Some (VFloat64 (Finite (real_of_int (sint we)))) \<longrightarrow>
      ErrorHandler e res = (we, msg)) \<and>
   ((\<forall>f. map_index (json_Unmarshal e res (Some [])) ''error'' \<noteq> Some (VFloat64 f)) \<longrightarrow>
      ErrorHandler e res = (0, ''''))"
proof (intro conjI impI ballI)
  show "\<exists>we msg. ErrorHandler e res = (we, msg)"
    by (rule exI [of _ "fst (ErrorHandler e res)"], rule exI [of _ "snd (ErrorHandler e res)"]) simp
next
  assume "map_index (json_Unmarshal e res (Some [])) ''error'' = Some (VFloat64 (Finite 7))"
  then have "map_index (json_Unmarshal e res (Some [])) ''error'' =
      Some (VFloat64 (Finite (real_of_int (sint AccessDenied))))"
    by (simp only: sint_AccessDenied)
  then show "ErrorHandler e res = (AccessDenied, ''Access denied'')"
    by (simp only: ErrorHandler_code WialonErrors_index_AccessDenied)
next
  fix x assume x: "x \<in> set WialonErrors"
  show "case x of (we, msg) \<Rightarrow>
      map_index (json_Unmarshal e res (Some [])) ''error'' =
        Some (VFloat64 (Finite (real_of_int (sint we)))) \<longrightarrow>
      ErrorHandler e res = (we, msg)"
  proof (cases x)
    case (Pair we msg)
    with x have "WialonErrors_index we = msg"
      by (simp only: WialonErrors_index_entry)
    then show ?thesis
      unfolding Pair by (simp add: ErrorHandler_code)
  qed
next
  assume "\<forall>f. map_index (json_Unmarshal e res (Some [])) ''error'' \<noteq> Some (VFloat64 f)"
  then show "ErrorHandler e res = (0, '''')"
    by (rule ErrorHandler_no_number)
qed

theorem ErrorHandler_decodes_witness:
  \<open>map_index (json_Unmarshal (sample_env '''') ''{"error":7}'' (Some [])) ''error'' =
     Some (VFloat64 (Finite 7)) \<and>
   ErrorHandler (sample_env '''') ''{"error":7}'' = (AccessDenied, ''Access denied'') \<and>
   (InvalidInput, ''Invalid input'') \<in> set WialonErrors \<and>
   map_index (json_Unmarshal (sample_env '''') ''{"error":4}'' (Some [])) ''error'' =
     Some (VFloat64 (Finite (real_of_int (sint InvalidInput)))) \<and>
   ErrorHandler (sample_env '''') ''{"error":4}'' = (InvalidInput, ''Invalid input'') \<and>
   ErrorHandler (sample_env '''') ''{}'' = (0, '''') \<and>
   ErrorHandler (sample_env '''') ''<html>'' = (0, '''') \<and>
   ErrorHandler (sample_env '''') ''{"error":"7"}'' = (0, '''')\<close>
proof -
  note t7 = ErrorHandler_decodes [where e = "sample_env ''''" and res = \<open>''{"error":7}''\<close>]
  note t4 = ErrorHandler_decodes [where e = "sample_env ''''" and res = \<open>''{"error":4}''\<close>]
  note t0 = ErrorHandler_decodes [where e = "sample_env ''''" and res = \<open>''{}''\<close>]
  note th = ErrorHandler_decodes [where e = "sample_env ''''" and res = \<open>''<html>''\<close>]
  note ts = ErrorHandler_decodes [where e = "sample_env ''''" and res = \<open>''{"error":"7"}''\<close>]
  have c7: \<open>ErrorHandler (sample_env '''') ''{"error":7}'' = (AccessDenied, ''Access denied'')\<close>
    by (rule t7 [THEN conjunct2, THEN conjunct1, rule_format]) (rule sample_Unmarshal_error7)
  have d4: \<open>map_index (json_Unmarshal (sample_env '''') ''{"error":4}'' (Some [])) ''error'' =
     Some (VFloat64 (Finite (real_of_int (sint InvalidInput))))\<close>
    by (simp only: sint_InvalidInput sample_Unmarshal_error4_code)
  from t4 [THEN conjunct2, THEN conjunct2, THEN conjunct1, THEN bspec, OF InvalidInput_entry]
  have \<open>map_index (json_Unmarshal (sample_env '''') ''{"error":4}'' (Some [])) ''error'' =
     Some (VFloat64 (Finite (real_of_int (sint InvalidInput)))) \<longrightarrow>
     ErrorHandler (sample_env '''') ''{"error":4}'' = (InvalidInput, ''Invalid input'')\<close>
    by (simp only: prod.case)
  from this d4 have c4: \<open>ErrorHandler (sample_env '''') ''{"error":4}'' = (InvalidInput, ''Invalid input'')\<close>
    by (rule mp)
  have c0: \<open>ErrorHandler (sample_env '''') ''{}'' = (0, '''')\<close>
    by (rule t0 [THEN conjunct2, THEN conjunct2, THEN conjunct2, THEN mp])
      (rule sample_Unmarshal_no_number)
  have ch: \<open>ErrorHandler (sample_env '''') ''<html>'' = (0, '''')\<close>
    by (rule th [THEN conjunct2, THEN conjunct2, THEN conjunct2, THEN mp])
      (rule sample_Unmarshal_no_number)
  have cs: \<open>ErrorHandler (sample_env '''') ''{"error":"7"}'' = (0, '''')\<close>
    by (rule ts [THEN conjunct2, THEN conjunct2, THEN conjunct2, THEN mp])
      (rule sample_Unmarshal_no_number)
  from sample_Unmarshal_error7 c7 InvalidInput_entry d4 c4 c0 ch cs show ?thesis
    by (intro conjI)
qed

text \<open>
  Claim C10, as the code has it. When the decoded body has a number under \<open>error\<close>, the
  code \<open>ErrorHandler\<close> returns is that \<open>float64\<close> converted to \<open>int\<close> and then cut to 16 bits: as
  a signed number it is the \<open>int\<close> reduced modulo \<open>2^16\<close> into the range from \<open>-2^15\<close>; the
  description is the table's for that code. For a number whose integer part fits an \<open>int\<close>,
  the \<open>int\<close> is that integer part. Two bodies whose numbers convert to \<open>int\<close>s that differ by
  a multiple of 65536 get the same code and description, in particular two bodies decoded to
  integers within the \<open>int\<close> range that differ by such a multiple; the number 65543 gets the
  code 7 and the description \<open>Access denied\<close>.
\<close>

theorem ErrorHandler_narrows:
  "(map_index (json_Unmarshal e res (Some [])) ''error'' = Some (VFloat64 f) \<longrightarrow>
      fst (ErrorHandler e res) = word_of_int (sint (int_of_float (float_oor e) f)) \<and>
      sint (fst (ErrorHandler e res)) =
        (sint (int_of_float (float_oor e) f) + 2 ^ 15) mod 2 ^ 16 - 2 ^ 15 \<and>
      snd (ErrorHandler e res) = WialonErrors_index (fst (ErrorHandler e res))) \<and>
   (map_index (json_Unmarshal e res (Some [])) ''error'' = Some (VFloat64 (Finite r)) \<and>
    - (2 ^ 63) \<le> float_truncate r \<and> float_truncate r < 2 ^ 63 \<longrightarrow>
      fst (ErrorHandler e res) = word_of_int (float_truncate r)) \<and>
   (map_index (json_Unmarshal e res1 (Some [])) ''error'' = Some (VFloat64 f1) \<and>
    map_index (json_Unmarshal e res2 (Some [])) ''error'' = Some (VFloat64 f2) \<and>
    65536 dvd sint (int_of_float (float_oor e) f1) - sint (int_of_float (float_oor e) f2) \<longrightarrow>
      ErrorHandler e res1 = ErrorHandler e res2) \<and>
   (map_index (json_Unmarshal e res1 (Some [])) ''error'' = Some (VFloat64 (Finite (real_of_int n1))) \<and>
    map_index (json_Unmarshal e res2 (Some [])) ''error'' = Some (VFloat64 (Finite (real_of_int n2))) \<and>
    - (2 ^ 63) \<le> n1 \<and> n1 < 2 ^ 63 \<and> - (2 ^ 63) \<le> n2 \<and> n2 < 2 ^ 63 \<and> 65536 dvd n1 - n2 \<longrightarrow>
      ErrorHandler e res1 = ErrorHandler e res2) \<and>
   (map_index (json_Unmarshal e res (Some [])) ''error'' = Some (VFloat64 (Finite 65543)) \<longrightarrow>
      ErrorHandler e res = (AccessDenied, ''Access denied''))"
proof (intro conjI impI)
  assume a: "map_index (json_Unmarshal e res (Some [])) ''error'' = Some (VFloat64 f)"
  note eh = ErrorHandler_number_code [OF a]
  show "fst (ErrorHandler e res) = word_of_int (sint (int_of_float (float_oor e) f))"
    by (simp only: eh fst_conv)
  show "sint (fst (ErrorHandler e res)) =
        (sint (int_of_float (float_oor e) f) + 2 ^ 15) mod 2 ^ 16 - 2 ^ 15"
    by (simp only: eh fst_conv sint_word16_of_int)
  show "snd (ErrorHandler e res) = WialonErrors_index (fst (ErrorHandler e res))"
    by (simp only: eh fst_conv snd_conv)
next
  assume a: "map_index (json_Unmarshal e res (Some [])) ''error'' = Some (VFloat64 (Finite r)) \<and>
    - (2 ^ 63) \<le> float_truncate r \<and> float_truncate r < 2 ^ 63"
  then have "int_of_float (float_oor e) (Finite r) = word_of_int (float_truncate r)"
    by (simp add: int_of_float_in_range)
  with ErrorHandler_number [OF a [THEN conjunct1]]
  show "fst (ErrorHandler e res) = word_of_int (float_truncate r)"
    by (simp only: fst_conv WialonError_of_int_word_of_int)
next
  assume a: "map_index (json_Unmarshal e res1 (Some [])) ''error'' = Some (VFloat64 f1) \<and>
    map_index (json_Unmarshal e res2 (Some [])) ''error'' = Some (VFloat64 f2) \<and>
    65536 dvd sint (int_of_float (float_oor e) f1) - sint (int_of_float (float_oor e) f2)"
  then have "(word_of_int (sint (int_of_float (float_oor e) f1)) :: 16 word) =
      word_of_int (sint (int_of_float (float_oor e) f2))"
    by (intro word16_of_int_cong) (elim conjE)
  with ErrorHandler_number_code [OF a [THEN conjunct1]]
    ErrorHandler_number_code [OF a [THEN conjunct2, THEN conjunct1]]
  show "ErrorHandler e res1 = ErrorHandler e res2"
    by (simp only:)
next
  assume a: "map_index (json_Unmarshal e res1 (Some [])) ''error'' = Some (VFloat64 (Finite (real_of_int n1))) \<and>
    map_index (json_Unmarshal e res2 (Some [])) ''error'' = Some (VFloat64 (Finite (real_of_int n2))) \<and>
    - (2 ^ 63) \<le> n1 \<and> n1 < 2 ^ 63 \<and> - (2 ^ 63) \<le> n2 \<and> n2 < 2 ^ 63 \<and> 65536 dvd n1 - n2"
  then have r1: "- (2 ^ 63) \<le> n1" "n1 < 2 ^ 63" and r2: "- (2 ^ 63) \<le> n2" "n2 < 2 ^ 63"
    and d: "65536 dvd n1 - n2"
    by simp_all
  have i1: "int_of_float (float_oor e) (Finite (real_of_int n1)) = word_of_int n1"
    using r1 by (rule int_of_float_of_int)
  have i2: "int_of_float (float_oor e) (Finite (real_of_int n2)) = word_of_int n2"
    using r2 by (rule int_of_float_of_int)
  from d have "(word_of_int n1 :: 16 word) = word_of_int n2"
    by (rule word16_of_int_cong)
  with ErrorHandler_number [OF a [THEN conjunct1]]
    ErrorHandler_number [OF a [THEN conjunct2, THEN conjunct1]]
  show "ErrorHandler e res1 = ErrorHandler e res2"
    by (simp only: i1 i2 WialonError_of_int_word_of_int)
next
  assume "map_index (json_Unmarshal e res (Some [])) ''error'' = Some (VFloat64 (Finite 65543))"
  from ErrorHandler_number [OF this]
  show "ErrorHandler e res = (AccessDenied, ''Access denied'')"
    by (simp only: int_of_float_65543 WialonError_of_int_65543 WialonErrors_index_AccessDenied)
qed

theorem ErrorHandler_narrows_witness:
  \<open>map_index (json_Unmarshal (sample_env '''') ''{"error":65543}'' (Some [])) ''error'' =
     Some (VFloat64 (Finite 65543)) \<and>
   ErrorHandler (sample_env '''') ''{"error":65543}'' = (AccessDenied, ''Access denied'') \<and>
   map_index (json_Unmarshal (sample_env '''') ''{"error":7}'' (Some [])) ''error'' =
     Some (VFloat64 (Finite (real_of_int 7))) \<and>
   (65536 :: int) dvd 65543 - 7 \<and>
   ErrorHandler (sample_env '''') ''{"error":65543}'' = ErrorHandler (sample_env '''') ''{"error":7}'' \<and>
   sint (fst (ErrorHandler (sample_env '''') ''{"error":65543}'')) = 7\<close>
proof -
  note t = ErrorHandler_narrows [where e = "sample_env ''''" and res = \<open>''{"error":65543}''\<close>
      and ?res1.0 = \<open>''{"error":65543}''\<close> and ?res2.0 = \<open>''{"error":7}''\<close>
      and ?n1.0 = 65543 and ?n2.0 = 7 and f = "Finite 65543"]
  have c1: \<open>ErrorHandler (sample_env '''') ''{"error":65543}'' = (AccessDenied, ''Access denied'')\<close>
    by (rule t [THEN conjunct2, THEN conjunct2, THEN conjunct2, THEN conjunct2, THEN mp])
      (rule sample_Unmarshal_error65543)
  have c2: \<open>ErrorHandler (sample_env '''') ''{"error":65543}'' =
      ErrorHandler (sample_env '''') ''{"error":7}''\<close>
    by (rule t [THEN conjunct2, THEN conjunct2, THEN conjunct2, THEN conjunct1, THEN mp])
      (intro conjI sample_Unmarshal_error65543_int sample_Unmarshal_error7_int
        int64_range_examples [THEN conjunct1]
        int64_range_examples [THEN conjunct2, THEN conjunct1]
        int64_range_examples [THEN conjunct2, THEN conjunct2, THEN conjunct1]
        int64_range_examples [THEN conjunct2, THEN conjunct2, THEN conjunct2, THEN conjunct1]
        int64_range_examples [THEN conjunct2, THEN conjunct2, THEN conjunct2, THEN conjunct2])
  from t [THEN conjunct1, THEN mp, OF sample_Unmarshal_error65543, THEN conjunct2, THEN conjunct1]
  have \<open>sint (fst (ErrorHandler (sample_env '''') ''{"error":65543}'')) =
      (sint (int_of_float (float_oor (sample_env '''')) (Finite 65543)) + 2 ^ 15) mod 2 ^ 16 - 2 ^ 15\<close> .
  then have c3: \<open>sint (fst (ErrorHandler (sample_env '''') ''{"error":65543}'')) = 7\<close>
    by (simp only: int_of_float_65543) simp
  from sample_Unmarshal_error65543 c1 sample_Unmarshal_error7_int
    int64_range_examples [THEN conjunct2, THEN conjunct2, THEN conjunct2, THEN conjunct2] c2 c3
  show ?thesis
    by (intro conjI)
qed

lemma sample_Unmarshal_error_2p53:
  \<open>map_index (json_Unmarshal (sample_env b) ''{"error":9007199254740993}'' (Some [])) ''error'' =
     Some (VFloat64 (Finite 9007199254740992))\<close>
  by (simp add: sample_env_def sample_Unmarshal_def sample_decode_def range_entries_def map_index_def)

lemma sample_Unmarshal_error_2p63:
  \<open>map_index (json_Unmarshal (sample_env b) ''{"error":9223372036854777856}'' (Some [])) ''error'' =
     Some (VFloat64 (Finite 9223372036854777856))\<close>
  by (simp add: sample_env_def sample_Unmarshal_def sample_decode_def range_entries_def map_index_def)

lemma sample_Unmarshal_error2048:
  \<open>map_index (json_Unmarshal (sample_env b) ''{"error":2048}'' (Some [])) ''error'' =
     Some (VFloat64 (Finite 2048))\<close>
  by (simp add: sample_env_def sample_Unmarshal_def sample_decode_def range_entries_def map_index_def)

lemma int_of_float_2p53: "int_of_float oor (Finite 9007199254740992) = 9007199254740992"
  by (simp add: int_of_float_def float_truncate_def)

lemma int_of_float_2048: "int_of_float oor (Finite 2048) = 2048"
  by (simp add: int_of_float_def float_truncate_def)

lemma int_of_float_2p63:
  "int_of_float (float_oor (sample_env b)) (Finite 9223372036854777856) = - (2 ^ 63)"
  by (simp add: int_of_float_def float_truncate_def sample_env_def)

lemma WialonError_of_int_2p53: "WialonError_of_int 9007199254740992 = 0"
  by (simp add: WialonError_of_int_def)

lemma WialonError_of_int_min: "WialonError_of_int (- (2 ^ 63)) = 0"
proof -
  have "WialonError_of_int (word_of_int (- (2 ^ 63))) = word_of_int (- (2 ^ 63))"
    by (rule WialonError_of_int_word_of_int)
  moreover have "(word_of_int (- (2 ^ 63)) :: 16 word) = 0"
    by (simp add: word_of_int_eq_0_iff)
  ultimately show ?thesis
    by simp
qed

lemma WialonError_of_int_2048: "WialonError_of_int 2048 = 2048"
  by (simp add: WialonError_of_int_def)

lemma WialonError_of_int_1: "WialonError_of_int 1 = InvalidSession"
  by (simp add: WialonError_of_int_def InvalidSession_def)

lemma WialonErrors_index_InvalidSession: "WialonErrors_index InvalidSession = ''Invalid session''"
  by (rule WialonErrors_index_entry) (simp add: WialonErrors_def)

lemma WialonErrors_index_2048: "WialonErrors_index 2048 = ''''"
  by (simp add: WialonErrors_index_def WialonErrors_def InvalidSession_def InvalidService_def
      InvalidResult_def InvalidInput_def ErrPerformReq_def UnknownError_def AccessDenied_def
      InvalidUserNameOrPassword_def AuthServerUnavailable_def NoMsgForSelectedInterval_def
      ItemAlreadyExists_def OneReqAllowed_def MsgLimitExceeded_def ExecutionTimeExceeded_def
      LimitAttemptsTwoFactAuth_def IPChangedOrSessExpired_def UserCannotBeBoundToAcc_def
      SensDeletingForbidden_def)

text \<open>
  The claim as stated speaks of the integers written in the bodies. The integer
  \<open>9007199254740993\<close> is decoded to the \<open>float64\<close> \<open>9007199254740992\<close> and gets the code 0,
  while 1, which differs from it by a multiple of 65536, gets the code 1. The integer
  \<open>9223372036854777856\<close> is a \<open>float64\<close> but no \<open>int\<close>; with the conversion of amd64 it gets
  the code 0, while 2048 gets the code 2048.
\<close>

theorem ErrorHandler_narrows_counterexample:
  \<open>(65536 :: int) dvd 9007199254740993 - 1 \<and>
   map_index (json_Unmarshal (sample_env '''') ''{"error":9007199254740993}'' (Some [])) ''error'' =
     Some (VFloat64 (Finite 9007199254740992)) \<and>
   ErrorHandler (sample_env '''') ''{"error":9007199254740993}'' = (0, '''') \<and>
   ErrorHandler (sample_env '''') ''{"error":1}'' = (InvalidSession, ''Invalid session'') \<and>
   (65536 :: int) dvd 9223372036854777856 - 2048 \<and>
   map_index (json_Unmarshal (sample_env '''') ''{"error":9223372036854777856}'' (Some [])) ''error'' =
     Some (VFloat64 (Finite 9223372036854777856)) \<and>
   ErrorHandler (sample_env '''') ''{"error":9223372036854777856}'' = (0, '''') \<and>
   ErrorHandler (sample_env '''') ''{"error":2048}'' = (2048, '''')\<close>
proof -
  have d1: "(65536 :: int) dvd 9007199254740993 - 1"
    and d2: "(65536 :: int) dvd 9223372036854777856 - 2048"
    by simp_all
  have a: \<open>ErrorHandler (sample_env '''') ''{"error":9007199254740993}'' = (0, '''')\<close>
    unfolding ErrorHandler_number [OF sample_Unmarshal_error_2p53]
    by (simp only: int_of_float_2p53 WialonError_of_int_2p53 WialonErrors_index_0)
  have b: \<open>ErrorHandler (sample_env '''') ''{"error":1}'' = (InvalidSession, ''Invalid session'')\<close>
    unfolding ErrorHandler_number [OF sample_Unmarshal_error1]
    by (simp only: int_of_float_1 WialonError_of_int_1 WialonErrors_index_InvalidSession)
  have c: \<open>ErrorHandler (sample_env '''') ''{"error":9223372036854777856}'' = (0, '''')\<close>
    unfolding ErrorHandler_number [OF sample_Unmarshal_error_2p63]
    by (simp only: int_of_float_2p63 WialonError_of_int_min WialonErrors_index_0)
  have d: \<open>ErrorHandler (sample_env '''') ''{"error":2048}'' = (2048, '''')\<close>
    unfolding ErrorHandler_number [OF sample_Unmarshal_error2048]
    by (simp only: int_of_float_2048 WialonError_of_int_2048 WialonErrors_index_2048)
  from d1 sample_Unmarshal_error_2p53 a b d2 sample_Unmarshal_error_2p63 c d
  show ?thesis
    by (intro conjI)
qed

section \<open>Parameter encoding\<close>

lemma strconv_Itoa_5: "strconv_Itoa 5 = ''5''"
  by (simp add: strconv_Itoa_def)

lemma strconv_Itoa_neg: "strconv_Itoa (- 120) = ''-120''"
  by (simp add: strconv_Itoa_def)

lemma encode_params_other:
  "encode_params e kvs acc = Inr urlValues \<Longrightarrow> k \<notin> fst ` set kvs \<Longrightarrow> map_of urlValues k = map_of acc k"
proof (induction kvs arbitrary: acc)
  case Nil
  then show ?case by simp
next
  case (Cons kv kvs)
  obtain k' v' where kv: "kv = (k', v')"
    by (cases kv)
  from Cons.prems(1) obtain s where s: "encode_value e v' = Inr s"
    and rest: "encode_params e kvs (AList.update k' [s] acc) = Inr urlValues"
    unfolding kv by (auto split: sum.splits)
  from Cons.prems(2) have "k \<noteq> k'" and "k \<notin> fst ` set kvs"
    unfolding kv by auto
  with Cons.IH [OF rest] show ?case
    by (simp add: update_conv')
qed

lemma encode_params_entry:
  "distinct (map fst kvs) \<Longrightarrow> encode_params e kvs acc = Inr urlValues \<Longrightarrow> (k, v) \<in> set kvs \<Longrightarrow>
   \<exists>s. encode_value e v = Inr s \<and> map_of urlValues k = Some [s]"
proof (induction kvs arbitrary: acc)
  case Nil
  then show ?case by simp
next
  case (Cons kv kvs)
  obtain k' v' where kv: "kv = (k', v')"
    by (cases kv)
  from Cons.prems(2) obtain s where s: "encode_value e v' = Inr s"
    and rest: "encode_params e kvs (AList.update k' [s] acc) = Inr urlValues"
    unfolding kv by (auto split: sum.splits)
  from Cons.prems(1) have d: "distinct (map fst kvs)" and k': "k' \<notin> fst ` set kvs"
    unfolding kv by auto
  show ?case
  proof (cases "(k, v) \<in> set kvs")
    case True
    from Cons.IH [OF d rest True] show ?thesis .
  next
    case False
    with Cons.prems(3) have eq: "k = k'" "v = v'"
      unfolding kv by auto
    from encode_params_other [OF rest k'] have "map_of urlValues k' = Some [s]"
      by (simp add: update_conv')
    with s eq show ?thesis
      by simp
  qed
qed

lemma encode_params_keys:
  "encode_params e kvs acc = Inr urlValues \<Longrightarrow> fst ` set urlValues = fst ` set kvs \<union> fst ` set acc"
proof (induction kvs arbitrary: acc)
  case Nil
  then show ?case by simp
next
  case (Cons kv kvs)
  obtain k' v' where kv: "kv = (k', v')"
    by (cases kv)
  from Cons.prems(1) obtain s where rest: "encode_params e kvs (AList.update k' [s] acc) = Inr urlValues"
    unfolding kv by (auto split: sum.splits)
  from Cons.IH [OF rest] show ?case
    unfolding kv by (auto simp add: dom_update)
qed

lemma encode_value_VString: "encode_value e (VString val) = Inr val"
  and encode_value_VInt: "encode_value e (VInt i) = Inr (strconv_Itoa i)"
  and encode_value_VFloat32: "encode_value e (VFloat32 f) = Inr (Sprintf_g e (VFloat32 f))"
  and encode_value_VFloat64: "encode_value e (VFloat64 f) = Inr (Sprintf_g e (VFloat64 f))"
  by (simp_all add: encode_value_def)

lemma encode_value_default:
  assumes "\<forall>val. v \<noteq> VString val" and "\<forall>val. v \<noteq> VInt val"
    and "\<forall>val. v \<noteq> VFloat32 val" and "\<forall>val. v \<noteq> VFloat64 val"
  shows "encode_value e v =
    (case json_Marshal e v of None \<Rightarrow> Inl (Panic ''Cannot Marshal params'') | Some jsonified \<Rightarrow> Inr jsonified)"
  using assms by (cases v) (simp_all add: encode_value_def)

lemma WialonAPICall_request:
  assumes "normalize_svc action = Inr svc"
    and "UpdateExtraParams w (reqParams w svc params) = Inr w1"
    and "url_Parse e (BaseAPIUrl w1) = Some u"
    and "encode_params e (range_entries (DefaultParams w1)) [] = Inr urlValues"
  shows "WialonAPICall e w action params =
    (post_query e (BaseAPIUrl w1) ''application/x-www-form-urlencoded'' (Values_Encode e urlValues), w1)"
  unfolding WialonAPICall_def using assms by simp

lemma normalize_core_search_items: "normalize_svc ''core_search_items'' = Inr ''core/search_items''"
  by (simp add: normalize_svc_def strings_HasPrefix_def)

lemma typed_client_update:
  "UpdateExtraParams typed_client (reqParams typed_client ''core/search_items'' (Some [(''id'', VInt 5)])) =
     Inr (typed_client\<lparr>DefaultParams := Some typed_client_merged\<rparr>)"
  by (simp add: UpdateExtraParams_def reqParams_def range_entries_def typed_client_def
      typed_client_merged_def NewWialon_def)

lemma typed_client_distinct: "distinct (map fst typed_client_merged)"
  by (simp add: typed_client_merged_def)

lemma typed_client_encode:
  "encode_params (sample_env body) typed_client_merged [] = Inr typed_client_urlValues"
  by (simp add: typed_client_merged_def typed_client_urlValues_def encode_value_def
      strconv_Itoa_5 sample_env_def sample_Sprintf_g_def sample_Marshal_def)

lemma typed_client_entries:
  "map_of typed_client_merged ''lang'' = Some (VString ''en'')"
  "map_of typed_client_merged ''limit'' = Some (VInt 5)"
  "map_of typed_client_merged ''ratio'' = Some (VFloat64 (Finite (3 / 2)))"
  "map_of typed_client_merged ''params'' = Some (VMap (Some [(''id'', VInt 5)]))"
  by (simp_all add: typed_client_merged_def)

lemma sample_post_query: "post_query (sample_env body) url contentType query = Inr body"
  by (simp add: post_query_def sample_env_def)

lemma sample_Sprintf_g_ratio: "Sprintf_g (sample_env body) (VFloat64 (Finite (3 / 2))) = ''1.5''"
  by (simp add: sample_env_def sample_Sprintf_g_def)

lemma sample_Marshal_id:
  \<open>json_Marshal (sample_env body) (VMap (Some [(''id'', VInt 5)])) = Some ''{"id":5}''\<close>
  by (simp add: sample_env_def sample_Marshal_def)

lemma VMap_is_default:
  "(\<forall>val. VMap m \<noteq> VString val) \<and> (\<forall>val. VMap m \<noteq> VInt val) \<and>
   (\<forall>val. VMap m \<noteq> VFloat32 val) \<and> (\<forall>val. VMap m \<noteq> VFloat64 val)"
  by simp

text \<open>
  Claim C5. When the service name is normalized, the parameters are merged, the base URL
  parses and every field is encoded, \<open>WialonAPICall\<close> posts \<open>Values_Encode\<close> of the fields,
  which are exactly the keys of the merged parameters (a Go map has each key once), each with
  one value chosen by the type of the parameter: a string itself, an \<open>int\<close> in decimal, a float
  as \<open>%g\<close> prints it, and any other value as the text \<open>json.Marshal\<close> gives for it. The
  \<open>int\<close> 5 is encoded as \<open>5\<close>; the float 1.5 as \<open>1.5\<close> where \<open>%g\<close> prints it so; a map or a
  boolean as its JSON text.
\<close>

theorem WialonAPICall_encodes_by_type:
  "(normalize_svc action = Inr svc \<and>
    UpdateExtraParams w (reqParams w svc params) = Inr w1 \<and>
    DefaultParams w1 = Some merged \<and> distinct (map fst merged) \<and>
    url_Parse e (BaseAPIUrl w1) = Some u \<and>
    encode_params e merged [] = Inr urlValues \<longrightarrow>
      WialonAPICall e w action params =
        (post_query e (BaseAPIUrl w1) ''application/x-www-form-urlencoded''
           (Values_Encode e urlValues), w1) \<and>
      fst ` set urlValues = fst ` set merged \<and>
      (\<forall>k val. map_of merged k = Some (VString val) \<longrightarrow> map_of urlValues k = Some [val]) \<and>
      (\<forall>k val. map_of merged k = Some (VInt val) \<longrightarrow> map_of urlValues k = Some [strconv_Itoa val]) \<and>
      (\<forall>k val. map_of merged k = Some (VFloat32 val) \<longrightarrow>
         map_of urlValues k = Some [Sprintf_g e (VFloat32 val)]) \<and>
      (\<forall>k val. map_of merged k = Some (VFloat64 val) \<longrightarrow>
         map_of urlValues k = Some [Sprintf_g e (VFloat64 val)]) \<and>
      (\<forall>k v. map_of merged k = Some v \<and> (\<forall>val. v \<noteq> VString val) \<and> (\<forall>val. v \<noteq> VInt val) \<and>
           (\<forall>val. v \<noteq> VFloat32 val) \<and> (\<forall>val. v \<noteq> VFloat64 val) \<longrightarrow>
         (\<exists>jsonified. json_Marshal e v = Some jsonified \<and> map_of urlValues k = Some [jsonified]))) \<and>
   strconv_Itoa 5 = ''5'' \<and>
   (Sprintf_g e (VFloat64 (Finite (3 / 2))) = ''1.5'' \<longrightarrow>
      encode_value e (VFloat64 (Finite (3 / 2))) = Inr ''1.5'') \<and>
   (json_Marshal e (VMap m) = Some jsonified \<longrightarrow> encode_value e (VMap m) = Inr jsonified) \<and>
   (json_Marshal e (VBool b) = Some jsonified \<longrightarrow> encode_value e (VBool b) = Inr jsonified)"
proof (intro conjI impI allI)
  assume a: "normalize_svc action = Inr svc \<and>
    UpdateExtraParams w (reqParams w svc params) = Inr w1 \<and>
    DefaultParams w1 = Some merged \<and> distinct (map fst merged) \<and>
    url_Parse e (BaseAPIUrl w1) = Some u \<and>
    encode_params e merged [] = Inr urlValues"
  then have n: "normalize_svc action = Inr svc"
    and upd: "UpdateExtraParams w (reqParams w svc params) = Inr w1"
    and dp: "DefaultParams w1 = Some merged" and dist: "distinct (map fst merged)"
    and url: "url_Parse e (BaseAPIUrl w1) = Some u"
    and enc: "encode_params e merged [] = Inr urlValues"
    by simp_all
  from dp enc have "encode_params e (range_entries (DefaultParams w1)) [] = Inr urlValues"
    by (simp add: range_entries_def)
  with n upd url
  show "WialonAPICall e w action params =
        (post_query e (BaseAPIUrl w1) ''application/x-www-form-urlencoded''
           (Values_Encode e urlValues), w1)"
    by (rule WialonAPICall_request)
  from encode_params_keys [OF enc] show "fst ` set urlValues = fst ` set merged"
    by simp
  have entry: "\<exists>s. encode_value e v = Inr s \<and> map_of urlValues k = Some [s]"
    if "map_of merged k = Some v" for k v
    using dist enc map_of_SomeD [OF that] by (rule encode_params_entry)
  show "map_of urlValues k = Some [val]" if "map_of merged k = Some (VString val)" for k val
    using entry [OF that] by (simp add: encode_value_VString)
  show "map_of urlValues k = Some [strconv_Itoa val]" if "map_of merged k = Some (VInt val)" for k val
    using entry [OF that] by (simp add: encode_value_VInt)
  show "map_of urlValues k = Some [Sprintf_g e (VFloat32 val)]"
    if "map_of merged k = Some (VFloat32 val)" for k val
    using entry [OF that] by (simp add: encode_value_VFloat32)
  show "map_of urlValues k = Some [Sprintf_g e (VFloat64 val)]"
    if "map_of merged k = Some (VFloat64 val)" for k val
    using entry [OF that] by (simp add: encode_value_VFloat64)
  show "\<exists>jsonified. json_Marshal e v = Some jsonified \<and> map_of urlValues k = Some [jsonified]"
    if that: "map_of merged k = Some v \<and> (\<forall>val. v \<noteq> VString val) \<and> (\<forall>val. v \<noteq> VInt val) \<and>
           (\<forall>val. v \<noteq> VFloat32 val) \<and> (\<forall>val. v \<noteq> VFloat64 val)" for k v
  proof -
    from that have "encode_value e v =
      (case json_Marshal e v of None \<Rightarrow> Inl (Panic ''Cannot Marshal params'')
       | Some jsonified \<Rightarrow> Inr jsonified)"
      by (intro encode_value_default) simp_all
    with entry [OF that [THEN conjunct1]] show ?thesis
      by (cases "json_Marshal e v") auto
  qed
next
  show "strconv_Itoa 5 = ''5''"
    by (rule strconv_Itoa_5)
next
  assume "Sprintf_g e (VFloat64 (Finite (3 / 2))) = ''1.5''"
  then show "encode_value e (VFloat64 (Finite (3 / 2))) = Inr ''1.5''"
    by (simp only: encode_value_VFloat64)
next
  assume "json_Marshal e (VMap m) = Some jsonified"
  then show "encode_value e (VMap m) = Inr jsonified"
    by (simp add: encode_value_def)
next
  assume "json_Marshal e (VBool b) = Some jsonified"
  then show "encode_value e (VBool b) = Inr jsonified"
    by (simp add: encode_value_def)
qed

theorem WialonAPICall_encodes_by_type_witness:
  \<open>normalize_svc ''core_search_items'' = Inr ''core/search_items'' \<and>
   UpdateExtraParams typed_client
     (reqParams typed_client ''core/search_items'' (Some [(''id'', VInt 5)])) =
     Inr (typed_client\<lparr>DefaultParams := Some typed_client_merged\<rparr>) \<and>
   distinct (map fst typed_client_merged) \<and>
   encode_params (sample_env ''{}'') typed_client_merged [] = Inr typed_client_urlValues \<and>
   WialonAPICall (sample_env ''{}'') typed_client ''core_search_items'' (Some [(''id'', VInt 5)]) =
     (Inr ''{}'', typed_client\<lparr>DefaultParams := Some typed_client_merged\<rparr>) \<and>
   map_of typed_client_urlValues ''lang'' = Some [''en''] \<and>
   map_of typed_client_urlValues ''limit'' = Some [''5''] \<and>
   map_of typed_client_urlValues ''ratio'' = Some [''1.5''] \<and>
   map_of typed_client_urlValues ''params'' = Some [''{"id":5}'']\<close>
proof -
  let ?e = "sample_env ''{}''"
  let ?w1 = "typed_client\<lparr>DefaultParams := Some typed_client_merged\<rparr>"
  have hyps: "normalize_svc ''core_search_items'' = Inr ''core/search_items'' \<and>
    UpdateExtraParams typed_client
      (reqParams typed_client ''core/search_items'' (Some [(''id'', VInt 5)])) = Inr ?w1 \<and>
    DefaultParams ?w1 = Some typed_client_merged \<and> distinct (map fst typed_client_merged) \<and>
    url_Parse ?e (BaseAPIUrl ?w1) = Some (BaseAPIUrl ?w1) \<and>
    encode_params ?e typed_client_merged [] = Inr typed_client_urlValues"
    by (intro conjI normalize_core_search_items typed_client_update typed_client_distinct
        typed_client_encode) (simp_all add: sample_env_def)
  note t = WialonAPICall_encodes_by_type [where e = ?e and w = typed_client
      and action = "''core_search_items''" and svc = "''core/search_items''"
      and params = "Some [(''id'', VInt 5)]" and ?w1.0 = ?w1 and merged = typed_client_merged
      and u = "BaseAPIUrl ?w1" and urlValues = typed_client_urlValues,
      THEN conjunct1, THEN mp, OF hyps]
  from t [THEN conjunct1]
  have call: "WialonAPICall ?e typed_client ''core_search_items'' (Some [(''id'', VInt 5)]) =
      (Inr ''{}'', ?w1)"
    by (simp only: sample_post_query)
  from t [THEN conjunct2, THEN conjunct2, THEN conjunct1, THEN spec, THEN spec, THEN mp,
      OF typed_client_entries(1)]
  have c1: "map_of typed_client_urlValues ''lang'' = Some [''en'']" .
  from t [THEN conjunct2, THEN conjunct2, THEN conjunct2, THEN conjunct1, THEN spec, THEN spec,
      THEN mp, OF typed_client_entries(2)]
  have c2: "map_of typed_client_urlValues ''limit'' = Some [''5'']"
    by (simp only: strconv_Itoa_5)
  from t [THEN conjunct2, THEN conjunct2, THEN conjunct2, THEN conjunct2, THEN conjunct2,
      THEN conjunct1, THEN spec, THEN spec, THEN mp, OF typed_client_entries(3)]
  have c3: "map_of typed_client_urlValues ''ratio'' = Some [''1.5'']"
    by (simp only: sample_Sprintf_g_ratio)
  from t [THEN conjunct2, THEN conjunct2, THEN conjunct2, THEN conjunct2, THEN conjunct2,
      THEN conjunct2, THEN spec, THEN spec, THEN mp,
      OF conjI [OF typed_client_entries(4) VMap_is_default]]
  obtain jsonified where "json_Marshal ?e (VMap (Some [(''id'', VInt 5)])) = Some jsonified"
    and "map_of typed_client_urlValues ''params'' = Some [jsonified]"
    by (elim exE conjE)
  then have c4: \<open>map_of typed_client_urlValues ''params'' = Some [''{"id":5}'']\<close>
    by (simp only: sample_Marshal_id option.inject)
  from hyps [THEN conjunct1] hyps [THEN conjunct2, THEN conjunct1] typed_client_distinct
    typed_client_encode [of "''{}''"] call c1 c2 c3 c4
  show ?thesis
    by (intro conjI)
qed

end
